theory Spec2Isabelle
  imports Complex_Main
begin

section \<open>Construction tracker: the store, the reconciler, the approvals and the views\<close>

text \<open>
  The program (\<^verbatim>\<open>src/index.py\<close>) keeps seven tables as the sheets of one workbook
  file and rewrites one sheet at a time under a file lock. The embedding follows the
  script function by function.

  \<^item> A pandas cell is a value of \<open>cell\<close>: a missing value (NaN, also Python's None),
    a text, a number or a boolean. A number is a Python \<^verbatim>\<open>float\<close>, a double: the
    rational it stands for. The one arithmetic step of the script on a cell, the
    subtraction of line 209, is rounded as IEEE 754 rounds it (\<open>binary64\<close>).
  \<^item> A DataFrame is a list of column names and a list of rows, each row holding one cell
    per column; a Python dict literal is an association list in key order.
  \<^item> The workbook file is \<open>Missing\<close>, \<open>Corrupt\<close> (it exists and the spreadsheet
    library cannot open it) or a \<open>Workbook\<close>. A workbook is known by what reading it
    gives: it maps the name of a sheet to the frame \<^verbatim>\<open>pd.read_excel\<close> returns for that
    sheet.
  \<^item> Writing a frame and reading it back is the business of pandas and openpyxl, which are
    not part of the repository, and it is not the identity: an empty text comes back as a
    missing value, the reader's NA markers too, a column is typed as a whole, numbers are
    written with a bounded number of digits. The embedding fixes none of this. Every
    operation that writes takes the library as a parameter \<open>xl\<close>: \<open>xl df\<close> is the
    frame \<^verbatim>\<open>pd.read_excel\<close> returns for the sheet that \<^verbatim>\<open>df.to_excel\<close> writes. What
    is proved holds for every \<open>xl\<close>. Only the seven sheets of a new file, which hold a
    header and no cell, are taken to read back as they were written.
  \<^item> The state threaded through the script is the file, the outcomes of the coming
    attempts to take the file lock (\<open>True\<close>: the attempt times out), whether this
    process holds the lock, and the messages shown to the user.
  \<^item> An exception that the script does not catch is a result \<open>Inl e\<close>, paired with
    the state at the point where it is raised.
\<close>

subsection \<open>Cells, frames and Python's comparisons\<close>

datatype cell = CNaN | CStr string | CNum rat | CBool bool

datatype error = KeyError string | TypeError | ExcelError

record dataframe =
  columns :: "string list"
  rows :: "cell list list"

text \<open>\<^verbatim>\<open>pd.DataFrame()\<close>: no columns, no rows.\<close>

definition empty_frame :: dataframe where
  "empty_frame = \<lparr>columns = [], rows = []\<rparr>"

text \<open>\<^verbatim>\<open>pd.DataFrame(columns=[...])\<close>: a header and no rows.\<close>

definition header_only :: "string list \<Rightarrow> dataframe" where
  "header_only cs = \<lparr>columns = cs, rows = []\<rparr>"

text \<open>\<^verbatim>\<open>df.empty\<close>: no rows or no columns.\<close>

definition is_empty :: "dataframe \<Rightarrow> bool" where
  "is_empty df = (rows df = [] \<or> columns df = [])"

text \<open>The number a cell counts as in Python arithmetic (\<open>True\<close> is 1), if any.\<close>

fun as_num :: "cell \<Rightarrow> rat option" where
  "as_num (CNum x) = Some x"
| "as_num (CBool b) = Some (if b then 1 else 0)"
| "as_num CNaN = None"
| "as_num (CStr s) = None"

text \<open>
  Python's \<^verbatim>\<open>==\<close> on two cells, as the element-wise \<^verbatim>\<open>==\<close> of a column uses it:
  a missing value equals nothing, a boolean equals the number it counts as.
\<close>

fun py_eq :: "cell \<Rightarrow> cell \<Rightarrow> bool" where
  "py_eq CNaN c = False"
| "py_eq c CNaN = False"
| "py_eq (CStr a) (CStr b) = (a = b)"
| "py_eq (CStr a) c = False"
| "py_eq c (CStr b) = False"
| "py_eq a b = (as_num a = as_num b)"

text \<open>
  \<^verbatim>\<open>column > 0\<close> on one cell: false on a missing value, a \<^verbatim>\<open>TypeError\<close> on a text.
\<close>

fun gt_zero :: "cell \<Rightarrow> error + bool" where
  "gt_zero CNaN = Inr False"
| "gt_zero (CStr s) = Inl TypeError"
| "gt_zero (CNum x) = Inr (0 < x)"
| "gt_zero (CBool b) = Inr b"

text \<open>The position of a column name, \<open>None\<close> when the frame has no such column.\<close>

fun index_of :: "string \<Rightarrow> string list \<Rightarrow> nat option" where
  "index_of c [] = None"
| "index_of c (x # xs) =
     (if x = c then Some 0 else (case index_of c xs of None \<Rightarrow> None | Some i \<Rightarrow> Some (Suc i)))"

text \<open>
  The cell of a row under a column of its frame; a row too short for the column reads
  as missing.
\<close>

definition cell_of :: "string list \<Rightarrow> cell list \<Rightarrow> string \<Rightarrow> cell" where
  "cell_of cs r c =
     (case index_of c cs of
        None \<Rightarrow> CNaN
      | Some i \<Rightarrow> (if i < length r then r ! i else CNaN))"

text \<open>\<^verbatim>\<open>df[c]\<close>: the column as a list of cells, or the \<^verbatim>\<open>KeyError\<close>.\<close>

definition get_column :: "dataframe \<Rightarrow> string \<Rightarrow> error + cell list" where
  "get_column df c =
     (if c \<in> set (columns df) then Inr (map (\<lambda>r. cell_of (columns df) r c) (rows df))
      else Inl (KeyError c))"

text \<open>\<^verbatim>\<open>df.at[i, c]\<close> for a row and a column that exist.\<close>

definition at_cell :: "dataframe \<Rightarrow> nat \<Rightarrow> string \<Rightarrow> cell" where
  "at_cell df i c = cell_of (columns df) (rows df ! i) c"

text \<open>\<^verbatim>\<open>pd.DataFrame([row_dict])\<close>: one row, the dict's keys as the columns.\<close>

definition frame_of_dict :: "(string \<times> cell) list \<Rightarrow> dataframe" where
  "frame_of_dict d = \<lparr>columns = map fst d, rows = [map snd d]\<rparr>"

text \<open>
  \<^verbatim>\<open>pd.concat([a, b], ignore_index=True)\<close>: the columns of \<open>a\<close>, then those of
  \<open>b\<close> that \<open>a\<close> lacks; every row is laid out on these columns, missing where its
  frame has no such column.
\<close>

definition reindex :: "string list \<Rightarrow> dataframe \<Rightarrow> cell list list" where
  "reindex cs df = map (\<lambda>r. map (cell_of (columns df) r) cs) (rows df)"

definition concat_frames :: "dataframe \<Rightarrow> dataframe \<Rightarrow> dataframe" where
  "concat_frames a b =
     (let cs = columns a @ filter (\<lambda>c. c \<notin> set (columns a)) (columns b)
      in \<lparr>columns = cs, rows = reindex cs a @ reindex cs b\<rparr>)"

subsection \<open>The workbook file, the lock and the user interface\<close>

datatype document = Missing | Corrupt | Workbook "string \<Rightarrow> dataframe option"

text \<open>
  The spreadsheet library: the frame read back from the sheet written for a frame.
\<close>

type_synonym reader = "dataframe \<Rightarrow> dataframe"

datatype message = Error string | Success string | Warning string | Info string

record state =
  doc :: document
  busy :: "bool list"
  lock_held :: bool
  ui :: "message list"

text \<open>The seven sheets \<^verbatim>\<open>ensure_workbook\<close> creates, each with its header.\<close>

definition sheets :: "(string \<times> string list) list" where
  "sheets =
    [(''companies'', [''company_id'', ''company_name'', ''address'', ''phone'']),
     (''engineers'', [''engineer_id'', ''name'', ''role'', ''phone'', ''email'', ''active'']),
     (''sites'', [''site_id'', ''site_name'', ''location'', ''start_date'', ''end_date'', ''status'']),
     (''assignments'', [''assignment_id'', ''engineer_id'', ''site_id'', ''assigned_by'',
        ''assigned_on'', ''is_active'']),
     (''fund_allocations'', [''allocation_id'', ''engineer_id'', ''site_id'', ''amount_allocated'',
        ''date_allocated'', ''balance_remaining'', ''notes'']),
     (''expenses'', [''expense_id'', ''site_id'', ''engineer_id'', ''expense_type'', ''amount'',
        ''date'', ''payment_mode'', ''receipt_path'', ''approved_by'', ''approved'', ''notes'']),
     (''audit_log'', [''log_id'', ''action'', ''object_type'', ''object_id'', ''user'',
        ''timestamp'', ''details''])]"

definition new_workbook :: "string \<Rightarrow> dataframe option" where
  "new_workbook name = map_option header_only (map_of sheets name)"

text \<open>\<^verbatim>\<open>ensure_workbook\<close>: creates the file when it does not exist, outside any lock.\<close>

definition ensure_workbook :: "state \<Rightarrow> state" where
  "ensure_workbook s = (if doc s = Missing then s\<lparr>doc := Workbook new_workbook\<rparr> else s)"

text \<open>
  \<^verbatim>\<open>pd.read_excel(DATA_FILE, sheet_name=...)\<close>: raises when the file cannot be opened
  or has no such sheet; otherwise its result is the frame the workbook stands for under
  that name.
\<close>

definition read_excel :: "document \<Rightarrow> string \<Rightarrow> error + dataframe" where
  "read_excel d name =
     (case d of
        Workbook wb \<Rightarrow> (case wb name of None \<Rightarrow> Inl ExcelError | Some df \<Rightarrow> Inr df)
      | _ \<Rightarrow> Inl ExcelError)"

text \<open>\<^verbatim>\<open>read_sheet\<close>: any exception of the read becomes an empty frame.\<close>

definition read_sheet :: "string \<Rightarrow> state \<Rightarrow> dataframe \<times> state" where
  "read_sheet name s =
     (let s1 = ensure_workbook s
      in (case read_excel (doc s1) name of Inl e \<Rightarrow> empty_frame | Inr df \<Rightarrow> df, s1))"

text \<open>
  \<^verbatim>\<open>ExcelWriter(mode="a", if_sheet_exists="replace")\<close> with one \<^verbatim>\<open>to_excel\<close>: opens
  the existing file, replaces or adds the one sheet and saves. It raises when the file
  is missing or cannot be opened. A later read of the sheet gives \<open>xl df\<close>, not
  \<open>df\<close>. (A frame the writer refuses, such as one with a control character in a
  text, is outside the model.)
\<close>

definition to_excel :: "reader \<Rightarrow> string \<Rightarrow> dataframe \<Rightarrow> document \<Rightarrow> error + document" where
  "to_excel xl name df d =
     (case d of Workbook wb \<Rightarrow> Inr (Workbook (wb(name \<mapsto> xl df))) | _ \<Rightarrow> Inl ExcelError)"

text \<open>
  Entering \<^verbatim>\<open>with lock\<close>: the next outcome in \<open>busy\<close> decides whether the attempt
  times out (no outcome left: the lock is free). Leaving the block releases the lock.
\<close>

definition acquire :: "state \<Rightarrow> bool \<times> state" where
  "acquire s =
     (case busy s of
        [] \<Rightarrow> (True, s\<lparr>lock_held := True\<rparr>)
      | b # bs \<Rightarrow> (if b then (False, s\<lparr>busy := bs\<rparr>)
                   else (True, s\<lparr>busy := bs, lock_held := True\<rparr>)))"

definition release :: "state \<Rightarrow> state" where
  "release s = s\<lparr>lock_held := False\<rparr>"

definition show_msg :: "message \<Rightarrow> state \<Rightarrow> state" where
  "show_msg m s = s\<lparr>ui := ui s @ [m]\<rparr>"

definition lock_message :: message where
  "lock_message = Error ''Could not acquire lock to write data. Try again in a few seconds.''"

text \<open>
  \<^verbatim>\<open>write_sheet\<close>: only \<^verbatim>\<open>Timeout\<close> is caught; any other exception leaves the
  \<^verbatim>\<open>with\<close> block, which releases the lock, and reaches the caller.
\<close>

definition write_sheet :: "reader \<Rightarrow> string \<Rightarrow> dataframe \<Rightarrow> state \<Rightarrow> (error + unit) \<times> state" where
  "write_sheet xl name df s =
     (let s1 = ensure_workbook s
      in case acquire s1 of
           (False, s2) \<Rightarrow> (Inr (), show_msg lock_message s2)
         | (True, s2) \<Rightarrow>
             (case to_excel xl name df (doc s2) of
                Inl e \<Rightarrow> (Inl e, release s2)
              | Inr d \<Rightarrow> (Inr (), release (s2\<lparr>doc := d\<rparr>))))"

definition append_row :: "reader \<Rightarrow> string \<Rightarrow> (string \<times> cell) list \<Rightarrow> state \<Rightarrow> (error + unit) \<times> state" where
  "append_row xl name row_dict s =
     (let (df, s1) = read_sheet name s
      in write_sheet xl name (concat_frames df (frame_of_dict row_dict)) s1)"

text \<open>
  \<^verbatim>\<open>log\<close>: the id is the value of \<^verbatim>\<open>uuid4()\<close> and the timestamp the text of
  \<^verbatim>\<open>datetime.utcnow().isoformat()\<close>, both given by the environment.
\<close>

definition log_entry :: "string \<Rightarrow> string \<Rightarrow> string \<Rightarrow> string \<Rightarrow> cell \<Rightarrow> cell \<Rightarrow> string \<Rightarrow>
    (string \<times> cell) list" where
  "log_entry log_id now action object_type object_id user details =
     [(''log_id'', CStr log_id), (''action'', CStr action), (''object_type'', CStr object_type),
      (''object_id'', object_id), (''user'', user), (''timestamp'', CStr now),
      (''details'', CStr details)]"

definition log_audit :: "reader \<Rightarrow> string \<Rightarrow> string \<Rightarrow> string \<Rightarrow> string \<Rightarrow> cell \<Rightarrow> cell \<Rightarrow> string \<Rightarrow> state \<Rightarrow>
    (error + unit) \<times> state" where
  "log_audit xl log_id now action object_type object_id user details s =
     append_row xl ''audit_log'' (log_entry log_id now action object_type object_id user details) s"

text \<open>Running a second step when the first one raised nothing.\<close>

definition and_then :: "(error + unit) \<times> state \<Rightarrow> (state \<Rightarrow> (error + unit) \<times> state) \<Rightarrow>
    (error + unit) \<times> state" where
  "and_then r f = (case r of (Inl e, s) \<Rightarrow> (Inl e, s) | (Inr u, s) \<Rightarrow> f s)"

subsection \<open>The allocation reconciler (Record Expense page)\<close>

fun gt_zero_all :: "cell list \<Rightarrow> error + bool list" where
  "gt_zero_all [] = Inr []"
| "gt_zero_all (c # cs) =
     (case gt_zero c of
        Inl e \<Rightarrow> Inl e
      | Inr b \<Rightarrow> (case gt_zero_all cs of Inl e \<Rightarrow> Inl e | Inr bs \<Rightarrow> Inr (b # bs)))"

text \<open>
  The mask of line 206: one boolean per row. Each \<^verbatim>\<open>alloc_df[...]\<close> raises
  \<^verbatim>\<open>KeyError\<close> on a frame without the column, in the order the line reads them.
\<close>

definition alloc_mask :: "dataframe \<Rightarrow> cell \<Rightarrow> cell \<Rightarrow> error + bool list" where
  "alloc_mask alloc_df eng_choice site_choice =
     (case get_column alloc_df ''engineer_id'' of
        Inl e \<Rightarrow> Inl e
      | Inr es \<Rightarrow>
     (case get_column alloc_df ''site_id'' of
        Inl e \<Rightarrow> Inl e
      | Inr ss \<Rightarrow>
     (case get_column alloc_df ''balance_remaining'' of
        Inl e \<Rightarrow> Inl e
      | Inr bs \<Rightarrow>
     (case gt_zero_all bs of
        Inl e \<Rightarrow> Inl e
      | Inr gs \<Rightarrow>
          Inr (map (\<lambda>(e, s, g). py_eq e eng_choice \<and> py_eq s site_choice \<and> g)
                 (zip es (zip ss gs)))))))"

text \<open>\<^verbatim>\<open>alloc_df[mask].index[0]\<close>: the first row the mask selects.\<close>

fun first_true :: "bool list \<Rightarrow> nat option" where
  "first_true [] = None"
| "first_true (b # bs) = (if b then Some 0 else map_option Suc (first_true bs))"

text \<open>
  Double precision. \<open>round_even\<close> rounds to the nearest integer, a tie to the even
  one. \<open>log2_floor n q 0\<close> is the exponent \<open>e\<close> with \<open>2^e \<le> q < 2^(e+1)\<close> for
  a positive \<open>q\<close>, searched for at most \<open>n\<close> steps; 1100 steps reach every exponent
  of a double. \<open>binary64 q\<close> is the double nearest to \<open>q\<close>: 53 significant bits,
  exponents from -1074 (subnormal numbers included). The amount of an expense is the
  value of \<^verbatim>\<open>st.number_input(min_value=0.0)\<close>, a double that is not negative, and
  line 209 subtracts it from a balance above zero: the difference lies between the two
  and cannot overflow, so there is no infinity here.
\<close>

definition round_even :: "rat \<Rightarrow> int" where
  "round_even q =
     (let n = \<lfloor>q\<rfloor>; r = q - of_int n
      in if r < 1 / 2 then n else if 1 / 2 < r then n + 1 else if even n then n else n + 1)"

fun log2_floor :: "nat \<Rightarrow> rat \<Rightarrow> int \<Rightarrow> int" where
  "log2_floor 0 q e = e"
| "log2_floor (Suc n) q e =
     (if 2 \<le> q then log2_floor n (q / 2) (e + 1)
      else if q < 1 then log2_floor n (q * 2) (e - 1)
      else e)"

definition pow2 :: "int \<Rightarrow> rat" where
  "pow2 e = (if 0 \<le> e then 2 ^ nat e else 1 / 2 ^ nat (- e))"

definition binary64 :: "rat \<Rightarrow> rat" where
  "binary64 q =
     (if q = 0 then 0
      else (let e = max (log2_floor 1100 \<bar>q\<bar> 0 - 52) (- 1074)
            in sgn q * of_int (round_even (\<bar>q\<bar> / pow2 e)) * pow2 e))"

text \<open>\<^verbatim>\<open>cell - float(amount)\<close>, in double precision.\<close>

fun sub_amount :: "cell \<Rightarrow> rat \<Rightarrow> error + cell" where
  "sub_amount CNaN a = Inr CNaN"
| "sub_amount (CStr s) a = Inl TypeError"
| "sub_amount (CNum x) a = Inr (CNum (binary64 (x - a)))"
| "sub_amount (CBool b) a = Inr (CNum (binary64 ((if b then 1 else 0) - a)))"

text \<open>
  \<^verbatim>\<open>df.at[i, c] = v\<close> on a row and a column that exist: the row is filled up to the
  header's width and the cell under the column replaced.
\<close>

definition set_row :: "string list \<Rightarrow> cell list \<Rightarrow> string \<Rightarrow> cell \<Rightarrow> cell list" where
  "set_row cs r c v =
     (case index_of c cs of
        None \<Rightarrow> r
      | Some j \<Rightarrow> (r @ replicate (length cs - length r) CNaN)[j := v])"

definition set_at :: "dataframe \<Rightarrow> nat \<Rightarrow> string \<Rightarrow> cell \<Rightarrow> dataframe" where
  "set_at df i c v = df\<lparr>rows := (rows df)[i := set_row (columns df) (rows df ! i) c v]\<rparr>"

text \<open>
  Lines 206 to 209: \<open>Inr None\<close> when the mask selects no row, otherwise the frame with the
  first selected row's balance reduced.
\<close>

definition reconcile :: "dataframe \<Rightarrow> cell \<Rightarrow> cell \<Rightarrow> rat \<Rightarrow> error + dataframe option" where
  "reconcile alloc_df eng_choice site_choice amount =
     (case alloc_mask alloc_df eng_choice site_choice of
        Inl e \<Rightarrow> Inl e
      | Inr msk \<Rightarrow>
          (case first_true msk of
             None \<Rightarrow> Inr None
           | Some idx \<Rightarrow>
               (case sub_amount (at_cell alloc_df idx ''balance_remaining'') amount of
                  Inl e \<Rightarrow> Inl e
                | Inr v \<Rightarrow> Inr (Some (set_at alloc_df idx ''balance_remaining'' v)))))"

text \<open>
  The row of lines 190 to 202. \<open>receipt\<close> is the name of the uploaded file, if any;
  storing the file itself is outside the model.
\<close>

definition expense_row :: "string \<Rightarrow> cell \<Rightarrow> cell \<Rightarrow> string \<Rightarrow> rat \<Rightarrow> string \<Rightarrow> string \<Rightarrow>
    string option \<Rightarrow> string \<Rightarrow> (string \<times> cell) list" where
  "expense_row expense_id site_choice eng_choice exp_type amount date payment_mode receipt notes =
     [(''expense_id'', CStr expense_id), (''site_id'', site_choice),
      (''engineer_id'', eng_choice), (''expense_type'', CStr exp_type),
      (''amount'', CNum amount), (''date'', CStr date), (''payment_mode'', CStr payment_mode),
      (''receipt_path'',
         CStr (case receipt of None \<Rightarrow> [] | Some n \<Rightarrow> ''uploads/'' @ expense_id @ ''_'' @ n)),
      (''approved_by'', CStr []), (''approved'', CBool False), (''notes'', CStr notes)]"

text \<open>
  The submit branch of the Record Expense page (lines 181 to 212). \<open>row_str\<close> is the text
  of \<^verbatim>\<open>str(row)\<close>; \<open>expense_id\<close> and \<open>log_id\<close> are the values of the two
  \<^verbatim>\<open>uuid4()\<close> calls.
\<close>

definition record_expense :: "reader \<Rightarrow> string \<Rightarrow> cell \<Rightarrow> cell \<Rightarrow> string \<Rightarrow> rat \<Rightarrow> string \<Rightarrow> string \<Rightarrow>
    string option \<Rightarrow> string \<Rightarrow> cell \<Rightarrow> string \<Rightarrow> string \<Rightarrow> string \<Rightarrow> state \<Rightarrow> (error + unit) \<times> state" where
  "record_expense xl expense_id site_choice eng_choice exp_type amount date payment_mode receipt notes
      user log_id now row_str s =
     and_then
       (append_row xl ''expenses''
          (expense_row expense_id site_choice eng_choice exp_type amount date payment_mode receipt notes) s)
       (\<lambda>s1.
          let (alloc_df, s2) = read_sheet ''fund_allocations'' s1
          in and_then
               (case reconcile alloc_df eng_choice site_choice amount of
                  Inl e \<Rightarrow> (Inl e, s2)
                | Inr None \<Rightarrow> (Inr (), s2)
                | Inr (Some df) \<Rightarrow> write_sheet xl ''fund_allocations'' df s2)
               (\<lambda>s3.
                  and_then
                    (log_audit xl log_id now ''create_expense'' ''expenses'' (CStr expense_id) user row_str s3)
                    (\<lambda>s4. (Inr (), show_msg (Success ''Expense recorded (pending approval)'') s4))))"

subsection \<open>The other forms: allocate, assign, add engineer, add site\<close>

definition allocate_funds :: "reader \<Rightarrow> string \<Rightarrow> cell \<Rightarrow> cell \<Rightarrow> rat \<Rightarrow> string \<Rightarrow> string \<Rightarrow> cell \<Rightarrow>
    string \<Rightarrow> string \<Rightarrow> string \<Rightarrow> state \<Rightarrow> (error + unit) \<times> state" where
  "allocate_funds xl allocation_id eng_choice site_choice amount today notes user log_id now row_str s =
     and_then
       (append_row xl ''fund_allocations''
          [(''allocation_id'', CStr allocation_id), (''engineer_id'', eng_choice),
           (''site_id'', site_choice), (''amount_allocated'', CNum amount),
           (''date_allocated'', CStr today), (''balance_remaining'', CNum amount),
           (''notes'', CStr notes)] s)
       (\<lambda>s1.
          and_then
            (log_audit xl log_id now ''allocate_funds'' ''fund_allocations'' (CStr allocation_id) user
               row_str s1)
            (\<lambda>s2. (Inr (), show_msg (Success ''Funds allocated'') s2)))"

definition assign_engineer :: "reader \<Rightarrow> string \<Rightarrow> cell \<Rightarrow> cell \<Rightarrow> cell \<Rightarrow> string \<Rightarrow> cell \<Rightarrow>
    string \<Rightarrow> string \<Rightarrow> string \<Rightarrow> state \<Rightarrow> (error + unit) \<times> state" where
  "assign_engineer xl assignment_id eng_choice site_choice assigned_by today user log_id now row_str s =
     and_then
       (append_row xl ''assignments''
          [(''assignment_id'', CStr assignment_id), (''engineer_id'', eng_choice),
           (''site_id'', site_choice), (''assigned_by'', assigned_by),
           (''assigned_on'', CStr today), (''is_active'', CBool True)] s)
       (\<lambda>s1.
          and_then
            (log_audit xl log_id now ''assign_engineer'' ''assignments'' (CStr assignment_id) user
               row_str s1)
            (\<lambda>s2. (Inr (), show_msg (Success ''Engineer assigned'') s2)))"

definition add_engineer :: "reader \<Rightarrow> string \<Rightarrow> string \<Rightarrow> string \<Rightarrow> string \<Rightarrow> string \<Rightarrow> cell \<Rightarrow>
    string \<Rightarrow> string \<Rightarrow> state \<Rightarrow> (error + unit) \<times> state" where
  "add_engineer xl new_id ename erole ephone eemail user log_id now s =
     and_then
       (append_row xl ''engineers''
          [(''engineer_id'', CStr new_id), (''name'', CStr ename), (''role'', CStr erole),
           (''phone'', CStr ephone), (''email'', CStr eemail), (''active'', CBool True)] s)
       (\<lambda>s1.
          and_then
            (log_audit xl log_id now ''create_engineer'' ''engineers'' (CStr new_id) user ename s1)
            (\<lambda>s2. (Inr (), show_msg (Success ''Engineer added'') s2)))"

definition add_site :: "reader \<Rightarrow> string \<Rightarrow> string \<Rightarrow> string \<Rightarrow> string \<Rightarrow> cell \<Rightarrow>
    string \<Rightarrow> string \<Rightarrow> state \<Rightarrow> (error + unit) \<times> state" where
  "add_site xl sid sname slocation sstart user log_id now s =
     and_then
       (append_row xl ''sites''
          [(''site_id'', CStr sid), (''site_name'', CStr sname), (''location'', CStr slocation),
           (''start_date'', CStr sstart), (''end_date'', CStr []), (''status'', CStr ''Ongoing'')] s)
       (\<lambda>s1.
          and_then
            (log_audit xl log_id now ''create_site'' ''sites'' (CStr sid) user sname s1)
            (\<lambda>s2. (Inr (), show_msg (Success ''Site added'') s2)))"

subsection \<open>The Approvals page\<close>

text \<open>
  \<^verbatim>\<open>df.loc[m, c] = v\<close>: the cell under \<open>c\<close> of every row the mask selects; a column the
  frame lacks is added, missing in the rows the mask leaves out.
\<close>

definition loc_set :: "bool list \<Rightarrow> string \<Rightarrow> cell \<Rightarrow> dataframe \<Rightarrow> dataframe" where
  "loc_set m c v df =
     (if c \<in> set (columns df)
      then df\<lparr>rows := map (\<lambda>(b, r). if b then set_row (columns df) r c v else r) (zip m (rows df))\<rparr>
      else \<lparr>columns = columns df @ [c],
            rows = map (\<lambda>(b, r). (r @ replicate (length (columns df) - length r) CNaN)
                                   @ [if b then v else CNaN]) (zip m (rows df))\<rparr>)"

text \<open>\<^verbatim>\<open>expenses_df["expense_id"] == r["expense_id"]\<close> for the row \<open>i\<close> of the frame.\<close>

definition id_mask :: "dataframe \<Rightarrow> nat \<Rightarrow> bool list" where
  "id_mask expenses_df i =
     map (\<lambda>r. py_eq (cell_of (columns expenses_df) r ''expense_id'')
                     (at_cell expenses_df i ''expense_id''))
         (rows expenses_df)"

text \<open>
  The two button handlers (lines 229 to 234 and 236 to 241) for the row \<open>i\<close> of
  \<open>expenses_df\<close>, the frame loaded when the script started.
\<close>

definition approve_expense :: "reader \<Rightarrow> dataframe \<Rightarrow> nat \<Rightarrow> cell \<Rightarrow> string \<Rightarrow> string \<Rightarrow> state \<Rightarrow>
    (error + unit) \<times> state" where
  "approve_expense xl expenses_df i user log_id now s =
     (let df1 = loc_set (id_mask expenses_df i) ''approved'' (CBool True) expenses_df;
          df2 = loc_set (id_mask df1 i) ''approved_by'' user df1
      in and_then (write_sheet xl ''expenses'' df2 s)
           (\<lambda>s1. and_then
              (log_audit xl log_id now ''approve_expense'' ''expenses''
                 (at_cell expenses_df i ''expense_id'') user ''approved'' s1)
              (\<lambda>s2. (Inr (), show_msg (Success ''Approved'') s2))))"

definition reject_expense :: "reader \<Rightarrow> dataframe \<Rightarrow> nat \<Rightarrow> cell \<Rightarrow> string \<Rightarrow> string \<Rightarrow> state \<Rightarrow>
    (error + unit) \<times> state" where
  "reject_expense xl expenses_df i user log_id now s =
     (let df1 = loc_set (id_mask expenses_df i) ''approved'' (CBool False) expenses_df;
          df2 = loc_set (id_mask df1 i) ''approved_by'' user df1
      in and_then (write_sheet xl ''expenses'' df2 s)
           (\<lambda>s1. and_then
              (log_audit xl log_id now ''reject_expense'' ''expenses''
                 (at_cell expenses_df i ''expense_id'') user ''rejected'' s1)
              (\<lambda>s2. (Inr (), show_msg (Warning ''Marked as reviewed (not approved)'') s2))))"

text \<open>
  \<^verbatim>\<open>expenses_df["approved"] != True\<close>: the rows the page lists, each with its two
  buttons.
\<close>

definition pending :: "dataframe \<Rightarrow> error + bool list" where
  "pending expenses_df =
     (case get_column expenses_df ''approved'' of
        Inl e \<Rightarrow> Inl e
      | Inr cs \<Rightarrow> Inr (map (\<lambda>c. \<not> py_eq c (CBool True)) cs))"

datatype click = Approve nat | Reject nat

text \<open>
  The page (lines 215 to 241) with one button pressed. A button exists only for a listed
  row; \<^verbatim>\<open>sort_values("date")\<close> and the line that prints a row raise \<^verbatim>\<open>KeyError\<close> on
  a frame without the columns they read.
\<close>

definition approvals_page :: "reader \<Rightarrow> dataframe \<Rightarrow> click \<Rightarrow> cell \<Rightarrow> string \<Rightarrow> string \<Rightarrow> state \<Rightarrow>
    (error + unit) \<times> state" where
  "approvals_page xl expenses_df btn user log_id now s =
     (if is_empty expenses_df then (Inr (), show_msg (Info ''No pending expenses'') s)
      else
        (case pending expenses_df of
           Inl e \<Rightarrow> (Inl e, s)
         | Inr p \<Rightarrow>
             if True \<notin> set p then (Inr (), show_msg (Info ''No pending expenses'') s)
             else
               (case filter (\<lambda>c. c \<notin> set (columns expenses_df))
                       [''date'', ''expense_id'', ''site_id'', ''engineer_id'', ''amount''] of
                  c # cs \<Rightarrow> (Inl (KeyError c), s)
                | [] \<Rightarrow>
                    (case btn of
                       Approve i \<Rightarrow>
                         if i < length p \<and> p ! i
                         then approve_expense xl expenses_df i user log_id now s
                         else (Inr (), s)
                     | Reject i \<Rightarrow>
                         if i < length p \<and> p ! i
                         then reject_expense xl expenses_df i user log_id now s
                         else (Inr (), s)))))"

subsection \<open>The reconciler in the words of the specification\<close>

text \<open>
  Written from the specification, not from the script: the allocation rows the
  reconciler is to choose from are those whose engineer matches, whose site matches and
  whose balance, as a number, is above zero; \<open>candidates\<close> lists them in table order.
  They are compared below with the mask of line 206.
\<close>

definition candidate :: "dataframe \<Rightarrow> cell \<Rightarrow> cell \<Rightarrow> nat \<Rightarrow> bool" where
  "candidate df eng site i =
     (py_eq (at_cell df i ''engineer_id'') eng \<and> py_eq (at_cell df i ''site_id'') site \<and>
      (case as_num (at_cell df i ''balance_remaining'') of None \<Rightarrow> False | Some x \<Rightarrow> 0 < x))"

definition candidates :: "dataframe \<Rightarrow> cell \<Rightarrow> cell \<Rightarrow> nat list" where
  "candidates df eng site = filter (candidate df eng site) [0..<length (rows df)]"

text \<open>
  An allocation table as the data model has it: the three columns the reconciler reads
  are there and no balance is a text.
\<close>

fun no_text :: "cell \<Rightarrow> bool" where
  "no_text (CStr t) = False"
| "no_text c = True"

definition allocation_table :: "dataframe \<Rightarrow> bool" where
  "allocation_table df =
     (''engineer_id'' \<in> set (columns df) \<and> ''site_id'' \<in> set (columns df) \<and>
      ''balance_remaining'' \<in> set (columns df) \<and>
      list_all (\<lambda>r. no_text (cell_of (columns df) r ''balance_remaining'')) (rows df))"

subsection \<open>Runs of the reconciler\<close>



section \<open>Properties\<close>

subsection \<open>Columns and cells\<close>

lemma index_of_Some: "index_of c cs = Some i \<Longrightarrow> i < length cs \<and> cs ! i = c"
  by (induction cs arbitrary: i) (auto split: if_splits option.splits)

lemma index_of_None: "(index_of c cs = None) = (c \<notin> set cs)"
  by (induction cs) (auto split: option.splits)

lemma cell_of_map: "c \<in> set cs \<Longrightarrow> cell_of cs (map f cs) c = f c"
proof -
  assume "c \<in> set cs"
  then obtain i where i: "index_of c cs = Some i"
    using index_of_None [of c cs] by (cases "index_of c cs") auto
  from index_of_Some [OF i] show ?thesis
    by (simp add: cell_of_def i)
qed

lemma cell_of_dict:
  "distinct (map fst d) \<Longrightarrow> (k, v) \<in> set d \<Longrightarrow> cell_of (map fst d) (map snd d) k = v"
proof -
  assume d: "distinct (map fst d)" and kv: "(k, v) \<in> set d"
  then have "k \<in> set (map fst d)" by force
  then obtain i where i: "index_of k (map fst d) = Some i"
    using index_of_None [of k "map fst d"] by (cases "index_of k (map fst d)") auto
  from index_of_Some [OF i] have il: "i < length d" and ik: "fst (d ! i) = k" by auto
  from kv obtain j where j: "j < length d" "d ! j = (k, v)" by (auto simp: in_set_conv_nth)
  with d il ik have "i = j"
    by (metis distinct_conv_nth fst_conv length_map nth_map)
  with j il show ?thesis by (simp add: cell_of_def i)
qed

subsection \<open>The store\<close>

lemma ensure_workbook_doc:
  "doc (ensure_workbook s) = (if doc s = Missing then Workbook new_workbook else doc s)"
  by (simp add: ensure_workbook_def)

lemma ensure_workbook_other:
  "busy (ensure_workbook s) = busy s" "lock_held (ensure_workbook s) = lock_held s"
  "ui (ensure_workbook s) = ui s"
  by (simp_all add: ensure_workbook_def)

lemma ensure_workbook_idem: "ensure_workbook (ensure_workbook s) = ensure_workbook s"
  by (simp add: ensure_workbook_def)

lemma read_sheet_state: "snd (read_sheet name s) = ensure_workbook s"
  by (simp add: read_sheet_def Let_def)

text \<open>
  Claim C6. Reading a table from a missing file, from a file that cannot be opened or from
  a workbook without the sheet gives a frame without rows, and no error: \<open>read_sheet\<close>
  has no error result. The frame is \<^verbatim>\<open>pd.DataFrame()\<close>, except that a missing file is
  first created, so that one of its seven sheets reads as its header.
\<close>

theorem read_sheet_lenient:
  assumes "doc s = Missing \<or> doc s = Corrupt \<or> (\<exists>wb. doc s = Workbook wb \<and> wb name = None)"
  shows "is_empty (fst (read_sheet name s)) \<and>
         (doc s \<noteq> Missing \<longrightarrow> fst (read_sheet name s) = empty_frame) \<and>
         (doc s = Missing \<longrightarrow>
            fst (read_sheet name s) =
              (case map_of sheets name of None \<Rightarrow> empty_frame | Some cs \<Rightarrow> header_only cs))"
  using assms
  by (auto simp: read_sheet_def Let_def ensure_workbook_def read_excel_def is_empty_def
      empty_frame_def header_only_def new_workbook_def split: option.splits)

theorem read_sheet_lenient_witness:
  "is_empty (fst (read_sheet ''expenses'' \<lparr>doc = Corrupt, busy = [], lock_held = False, ui = []\<rparr>))"
  using read_sheet_lenient [of "\<lparr>doc = Corrupt, busy = [], lock_held = False, ui = []\<rparr>" "''expenses''"]
  by (simp add: is_empty_def empty_frame_def)

lemma acquire_fst: "fst (acquire s) = (case busy s of [] \<Rightarrow> True | b # bs \<Rightarrow> \<not> b)"
  by (simp add: acquire_def split: list.splits)

lemma read_sheet_ensure: "read_sheet n (ensure_workbook s) = read_sheet n s"
  by (simp add: read_sheet_def ensure_workbook_idem)

lemma read_sheet_doc: "doc s' = doc s \<Longrightarrow> fst (read_sheet n s') = fst (read_sheet n s)"
  by (simp add: read_sheet_def Let_def ensure_workbook_def)

lemma read_sheet_corrupt: "doc s = Corrupt \<Longrightarrow> fst (read_sheet n s) = empty_frame"
  by (simp add: read_sheet_def Let_def ensure_workbook_def read_excel_def)

lemma write_sheet_cases:
  "write_sheet xl name df s =
     (if \<not> fst (acquire s)
      then (Inr (), show_msg lock_message ((ensure_workbook s)\<lparr>busy := tl (busy s)\<rparr>))
      else (case doc (ensure_workbook s) of
              Workbook wb \<Rightarrow>
                (Inr (), (ensure_workbook s)
                   \<lparr>busy := tl (busy s), lock_held := False, doc := Workbook (wb(name \<mapsto> xl df))\<rparr>)
            | _ \<Rightarrow> (Inl ExcelError, (ensure_workbook s)\<lparr>busy := tl (busy s), lock_held := False\<rparr>)))"
  by (cases "busy s"; cases "doc s")
     (simp_all add: write_sheet_def ensure_workbook_def acquire_def show_msg_def release_def
       to_excel_def)

lemma write_sheet_busy: "busy (snd (write_sheet xl name df s)) = tl (busy s)"
  by (simp add: write_sheet_cases show_msg_def split: document.splits)

lemma write_sheet_corrupt: "(doc (snd (write_sheet xl name df s)) = Corrupt) = (doc s = Corrupt)"
  by (cases "doc s") (simp_all add: write_sheet_cases show_msg_def ensure_workbook_def)

lemma write_sheet_result:
  "fst (write_sheet xl name df s) =
     (if fst (acquire s) \<and> doc s = Corrupt then Inl ExcelError else Inr ())"
  by (cases "doc s") (simp_all add: write_sheet_cases ensure_workbook_def)

lemma read_after_write:
  "fst (read_sheet n (snd (write_sheet xl name df s))) =
     (if n = name \<and> fst (acquire s) \<and> doc s \<noteq> Corrupt then xl df else fst (read_sheet n s))"
  by (cases "doc s")
     (simp_all add: write_sheet_cases show_msg_def ensure_workbook_def read_sheet_def read_excel_def)

lemma append_row_unfold:
  "append_row xl name row_dict s =
     write_sheet xl name (concat_frames (fst (read_sheet name s)) (frame_of_dict row_dict))
       (ensure_workbook s)"
  by (simp add: append_row_def read_sheet_def Let_def)

lemma acquire_ensure: "fst (acquire (ensure_workbook s)) = fst (acquire s)"
  by (simp add: acquire_fst ensure_workbook_other)

lemma ensure_corrupt: "(doc (ensure_workbook s) = Corrupt) = (doc s = Corrupt)"
  by (simp add: ensure_workbook_def)

lemma read_after_append:
  "fst (read_sheet n (snd (append_row xl name row_dict s))) =
     (if n = name \<and> fst (acquire s) \<and> doc s \<noteq> Corrupt
      then xl (concat_frames (fst (read_sheet name s)) (frame_of_dict row_dict))
      else fst (read_sheet n s))"
  by (simp add: append_row_unfold read_after_write acquire_ensure ensure_corrupt read_sheet_ensure)

lemma append_row_busy: "busy (snd (append_row xl name row_dict s)) = tl (busy s)"
  by (simp add: append_row_unfold write_sheet_busy ensure_workbook_other)

lemma append_row_corrupt: "(doc (snd (append_row xl name row_dict s)) = Corrupt) = (doc s = Corrupt)"
  by (simp add: append_row_unfold write_sheet_corrupt ensure_corrupt)

lemma append_row_result:
  "fst (append_row xl name row_dict s) =
     (if fst (acquire s) \<and> doc s = Corrupt then Inl ExcelError else Inr ())"
  by (simp add: append_row_unfold write_sheet_result acquire_ensure ensure_corrupt)

lemma concat_columns:
  "columns (concat_frames a b) = columns a @ filter (\<lambda>c. c \<notin> set (columns a)) (columns b)"
  by (simp add: concat_frames_def Let_def)

lemma concat_rows_length: "length (rows (concat_frames a b)) = length (rows a) + length (rows b)"
  by (simp add: concat_frames_def Let_def reindex_def)

lemma concat_old_cell:
  assumes "i < length (rows a)" "c \<in> set (columns a)"
  shows "at_cell (concat_frames a b) i c = at_cell a i c"
proof -
  define cs where "cs = columns a @ filter (\<lambda>c. c \<notin> set (columns a)) (columns b)"
  have c: "c \<in> set cs" using assms by (simp add: cs_def)
  have "rows (concat_frames a b) ! i = map (cell_of (columns a) (rows a ! i)) cs"
    using assms(1) by (simp add: concat_frames_def Let_def reindex_def nth_append cs_def)
  moreover have "columns (concat_frames a b) = cs"
    by (simp add: concat_frames_def Let_def cs_def)
  ultimately show ?thesis
    using cell_of_map [OF c, of "cell_of (columns a) (rows a ! i)"] by (simp add: at_cell_def)
qed

lemma concat_new_cell:
  assumes "distinct (map fst d)" "(k, v) \<in> set d"
  shows "cell_of (columns (concat_frames a (frame_of_dict d)))
           (last (rows (concat_frames a (frame_of_dict d)))) k = v"
proof -
  define cs where "cs = columns a @ filter (\<lambda>c. c \<notin> set (columns a)) (map fst d)"
  have "k \<in> set (map fst d)" using assms by force
  then have k: "k \<in> set cs" by (auto simp: cs_def)
  have "last (rows (concat_frames a (frame_of_dict d))) = map (cell_of (map fst d) (map snd d)) cs"
    by (simp add: concat_frames_def Let_def reindex_def frame_of_dict_def cs_def)
  moreover have "columns (concat_frames a (frame_of_dict d)) = cs"
    by (simp add: concat_frames_def Let_def frame_of_dict_def cs_def)
  ultimately show ?thesis
    using cell_of_map [OF k, of "cell_of (map fst d) (map snd d)"] cell_of_dict [OF assms]
    by simp
qed

subsection \<open>The reconciler\<close>

lemma gt_zero_all_nth:
  "gt_zero_all cs = Inr gs \<Longrightarrow>
     length gs = length cs \<and> (\<forall>i < length cs. gt_zero (cs ! i) = Inr (gs ! i))"
proof (induction cs arbitrary: gs)
  case Nil
  then show ?case by simp
next
  case (Cons c cs)
  from Cons.prems obtain b bs where b: "gt_zero c = Inr b" and bs: "gt_zero_all cs = Inr bs"
    and gs: "gs = b # bs"
    by (auto split: sum.splits)
  from Cons.IH [OF bs] b gs show ?case
    by (auto simp: nth_Cons split: nat.splits)
qed

lemma alloc_mask_nth:
  assumes "alloc_mask df eng site = Inr m"
  shows "''engineer_id'' \<in> set (columns df) \<and> ''site_id'' \<in> set (columns df) \<and>
         ''balance_remaining'' \<in> set (columns df) \<and> length m = length (rows df) \<and>
         (\<forall>i < length (rows df).
            m ! i = (py_eq (at_cell df i ''engineer_id'') eng \<and> py_eq (at_cell df i ''site_id'') site \<and>
                     gt_zero (at_cell df i ''balance_remaining'') = Inr True))"
proof -
  from assms obtain gs where
    cols: "''engineer_id'' \<in> set (columns df)" "''site_id'' \<in> set (columns df)"
      "''balance_remaining'' \<in> set (columns df)"
    and gs: "gt_zero_all (map (\<lambda>r. cell_of (columns df) r ''balance_remaining'') (rows df)) = Inr gs"
    and m: "m = map (\<lambda>(e, s, g). py_eq e eng \<and> py_eq s site \<and> g)
               (zip (map (\<lambda>r. cell_of (columns df) r ''engineer_id'') (rows df))
                 (zip (map (\<lambda>r. cell_of (columns df) r ''site_id'') (rows df)) gs))"
    by (auto simp: alloc_mask_def get_column_def split: sum.splits if_splits)
  from gt_zero_all_nth [OF gs] have len: "length gs = length (rows df)"
    and g: "\<And>i. i < length (rows df) \<Longrightarrow> gt_zero (at_cell df i ''balance_remaining'') = Inr (gs ! i)"
    by (auto simp: at_cell_def)
  show ?thesis using cols len g by (auto simp: m at_cell_def)
qed

lemma first_true_Some:
  "first_true m = Some i \<Longrightarrow> i < length m \<and> m ! i \<and> (\<forall>j < i. \<not> m ! j)"
proof (induction m arbitrary: i)
  case Nil
  then show ?case by simp
next
  case (Cons b m)
  then show ?case
    by (auto simp: nth_Cons split: if_splits nat.splits)
qed

lemma first_true_None: "(first_true m = None) = (True \<notin> set m)"
  by (induction m) auto

lemma cell_of_set_row:
  "cell_of cs (set_row cs r c v) c' = (if c' = c \<and> c \<in> set cs then v else cell_of cs r c')"
proof (cases "index_of c cs")
  case None
  then have "c \<notin> set cs" by (simp add: index_of_None)
  with None show ?thesis by (simp add: set_row_def)
next
  case (Some j)
  note j = index_of_Some [OF Some]
  have cin: "c \<in> set cs" using Some index_of_None [of c cs] by auto
  from j have jl: "j < length r + (length cs - length r)" by arith
  show ?thesis
  proof (cases "c' = c")
    case True
    then show ?thesis using Some jl cin by (simp add: set_row_def cell_of_def)
  next
    case False
    show ?thesis
    proof (cases "index_of c' cs")
      case None
      then show ?thesis using False by (simp add: cell_of_def)
    next
      case (Some j')
      note j' = index_of_Some [OF Some]
      from j j' False have "j \<noteq> j'" by auto
      moreover from j' have "j' < length cs" by simp
      ultimately show ?thesis using False Some \<open>index_of c cs = Some j\<close>
        by (auto simp: set_row_def cell_of_def nth_append)
    qed
  qed
qed

lemma at_cell_set_at:
  "i < length (rows df) \<Longrightarrow>
   at_cell (set_at df i c v) j c' =
     (if j = i \<and> c' = c \<and> c \<in> set (columns df) then v else at_cell df j c')"
  by (auto simp: at_cell_def set_at_def cell_of_set_row nth_list_update)


lemma set_at_other_row: "j \<noteq> i \<Longrightarrow> rows (set_at df i c v) ! j = rows df ! j"
  by (simp add: set_at_def)

lemma gt_zero_True:
  "gt_zero c = Inr True \<Longrightarrow>
     \<exists>x. as_num c = Some x \<and> 0 < x \<and> sub_amount c a = Inr (CNum (binary64 (x - a)))"
  by (cases c) auto

lemma reconcile_cases:
  assumes "alloc_mask df eng site = Inr m"
  shows "(True \<notin> set m \<longrightarrow> reconcile df eng site a = Inr None) \<and>
         (True \<in> set m \<longrightarrow>
            (\<exists>idx x. first_true m = Some idx \<and> idx < length (rows df) \<and> m ! idx \<and>
               (\<forall>j < idx. \<not> m ! j) \<and>
               as_num (at_cell df idx ''balance_remaining'') = Some x \<and> 0 < x \<and>
               reconcile df eng site a =
                 Inr (Some (set_at df idx ''balance_remaining'' (CNum (binary64 (x - a)))))))"
proof (cases "first_true m")
  case None
  then have "True \<notin> set m" by (simp add: first_true_None)
  with None assms show ?thesis by (simp add: reconcile_def)
next
  case (Some idx)
  note ft = first_true_Some [OF Some]
  note am = alloc_mask_nth [OF assms]
  from ft am have "gt_zero (at_cell df idx ''balance_remaining'') = Inr True" by auto
  from gt_zero_True [OF this, of a] obtain x where
    "as_num (at_cell df idx ''balance_remaining'') = Some x" "0 < x"
    "sub_amount (at_cell df idx ''balance_remaining'') a = Inr (CNum (binary64 (x - a)))" by auto
  moreover have "True \<in> set m" using ft by (auto simp: in_set_conv_nth)
  ultimately show ?thesis using Some ft am assms
    by (simp add: reconcile_def)
qed

lemma floor_rat_divide: "\<lfloor>(numeral a :: rat) / numeral b\<rfloor> = numeral a div numeral b"
  using floor_divide_of_int_eq [of "numeral a" "numeral b", where ?'a = rat] by simp

lemma log2_floor_numeral:
  "log2_floor (numeral k) q e =
     (if 2 \<le> q then log2_floor (pred_numeral k) (q / 2) (e + 1)
      else if q < 1 then log2_floor (pred_numeral k) (q * 2) (e - 1)
      else e)"
  by (simp add: numeral_eq_Suc)

lemmas binary64_eval = binary64_def round_even_def pow2_def Let_def floor_rat_divide
  log2_floor_numeral

lemma gt_zero_all_no_text:
  "list_all no_text cs \<Longrightarrow>
     gt_zero_all cs = Inr (map (\<lambda>c. case as_num c of None \<Rightarrow> False | Some x \<Rightarrow> 0 < x) cs)"
proof (induction cs)
  case Nil
  then show ?case by simp
next
  case (Cons c cs)
  then show ?case by (cases c) simp_all
qed

lemma gt_zero_all_Inr: "gt_zero_all cs = Inr gs \<Longrightarrow> list_all no_text cs"
proof (induction cs arbitrary: gs)
  case Nil
  then show ?case by simp
next
  case (Cons c cs)
  then show ?case by (cases c) (auto split: sum.splits)
qed

lemma alloc_mask_table:
  assumes "allocation_table df"
  shows "alloc_mask df eng site = Inr (map (candidate df eng site) [0..<length (rows df)])"
proof -
  have nt: "list_all no_text (map (\<lambda>r. cell_of (columns df) r ''balance_remaining'') (rows df))"
    using assms by (simp add: allocation_table_def list_all_iff)
  have "map (\<lambda>(e, s, g). py_eq e eng \<and> py_eq s site \<and> g)
          (zip (map (\<lambda>r. cell_of (columns df) r ''engineer_id'') (rows df))
            (zip (map (\<lambda>r. cell_of (columns df) r ''site_id'') (rows df))
              (map (\<lambda>c. case as_num c of None \<Rightarrow> False | Some x \<Rightarrow> 0 < x)
                 (map (\<lambda>r. cell_of (columns df) r ''balance_remaining'') (rows df))))) =
        map (candidate df eng site) [0..<length (rows df)]"
    by (rule nth_equalityI) (simp_all add: candidate_def at_cell_def)
  then show ?thesis
    using assms gt_zero_all_no_text [OF nt]
    by (simp add: alloc_mask_def get_column_def allocation_table_def)
qed

lemma alloc_mask_Inr: "alloc_mask df eng site = Inr m \<Longrightarrow> allocation_table df"
  by (auto simp: alloc_mask_def get_column_def allocation_table_def list_all_iff
      split: sum.splits if_splits dest!: gt_zero_all_Inr)

lemma filter_upt_first:
  assumes "filter P [0..<n] = i # rest"
  shows "i < n \<and> P i \<and> (\<forall>j < i. \<not> P j) \<and> (\<forall>j \<in> set rest. i < j \<and> j < n \<and> P j)"
proof -
  from assms obtain us vs where
    split: "[0..<n] = us @ i # vs" and us: "\<forall>u \<in> set us. \<not> P u" and i: "P i"
    and rest: "rest = filter P vs"
    by (auto simp: filter_eq_Cons_iff)
  have "i \<in> set [0..<n]" by (simp add: split)
  then have lt: "i < n" by simp
  have len: "length us < n" using arg_cong [OF split, of length] by simp
  have "[0..<n] ! length us = i" by (simp add: split)
  with len have li: "length us = i" by simp
  have us_eq: "us = [0..<i]"
  proof (rule nth_equalityI)
    show "length us = length [0..<i]" by (simp add: li)
  next
    fix k assume k: "k < length us"
    then have "us ! k = [0..<n] ! k" by (simp add: split nth_append)
    with k len li show "us ! k = [0..<i] ! k" by simp
  qed
  have vs_eq: "vs = [Suc i..<n]"
  proof (rule nth_equalityI)
    have "n = length us + Suc (length vs)" using arg_cong [OF split, of length] by simp
    moreover have "length [Suc i..<n] = n - Suc i" by simp
    ultimately show "length vs = length [Suc i..<n]" using li by arith
  next
    fix k assume k: "k < length vs"
    have "n = length us + Suc (length vs)" using arg_cong [OF split, of length] by simp
    with li k have l: "Suc (i + k) < n" by simp
    have "vs ! k = (us @ i # vs) ! (Suc (i + k))" by (simp add: nth_append li)
    also have "\<dots> = [0..<n] ! (Suc (i + k))" by (simp add: split)
    also have "\<dots> = Suc (i + k)" using l by simp
    finally show "vs ! k = [Suc i..<n] ! k" using l by simp
  qed
  show ?thesis using lt i us rest by (auto simp: us_eq vs_eq)
qed

lemma reconcile_first_candidate:
  assumes t: "allocation_table df" and c: "candidates df eng site = i # rest"
  shows "\<exists>x. as_num (at_cell df i ''balance_remaining'') = Some x \<and> 0 < x \<and>
           reconcile df eng site a =
             Inr (Some (set_at df i ''balance_remaining'' (CNum (binary64 (x - a)))))"
proof -
  let ?m = "map (candidate df eng site) [0..<length (rows df)]"
  note m = alloc_mask_table [OF t, of eng site]
  from filter_upt_first [OF c [unfolded candidates_def]]
  have i: "i < length (rows df)" "candidate df eng site i" "\<forall>j < i. \<not> candidate df eng site j"
    by auto
  then have mi: "?m ! i" by simp
  with i(1) have "True \<in> set ?m" by (metis length_map length_upt minus_nat.diff_0 nth_mem)
  with reconcile_cases [OF m, of a] obtain idx x where
    idx: "idx < length (rows df)" "?m ! idx" "\<forall>j < idx. \<not> ?m ! j"
    and x: "as_num (at_cell df idx ''balance_remaining'') = Some x" "0 < x"
    and r: "reconcile df eng site a =
       Inr (Some (set_at df idx ''balance_remaining'' (CNum (binary64 (x - a)))))"
    by blast
  have "idx = i"
  proof (rule ccontr)
    assume "idx \<noteq> i"
    then consider "idx < i" | "i < idx" by arith
    then show False
    proof cases
      case 1
      with i(3) idx(1,2) show False by simp
    next
      case 2
      with idx(3) mi show False by blast
    qed
  qed
  with x r show ?thesis by blast
qed

lemma reconcile_no_candidate:
  assumes "candidates df eng site = []"
  shows "reconcile df eng site a \<noteq> Inr (Some df')"
proof
  assume r: "reconcile df eng site a = Inr (Some df')"
  then obtain m where m: "alloc_mask df eng site = Inr m"
    by (auto simp: reconcile_def split: sum.splits)
  note t = alloc_mask_Inr [OF m]
  from m alloc_mask_table [OF t, of eng site]
  have me: "m = map (candidate df eng site) [0..<length (rows df)]" by simp
  from r m have "first_true m \<noteq> None" by (auto simp: reconcile_def split: option.splits)
  then have "True \<in> set m" by (simp add: first_true_None)
  then obtain i where "i < length (rows df)" "candidate df eng site i"
    by (auto simp: me)
  then have "i \<in> set (candidates df eng site)" by (simp add: candidates_def)
  with assms show False by simp
qed

lemma reconcile_none:
  assumes "allocation_table df" and "candidates df eng site = []"
  shows "reconcile df eng site a = Inr None"
proof -
  note m = alloc_mask_table [OF assms(1), of eng site]
  have "True \<notin> set (map (candidate df eng site) [0..<length (rows df)])"
    using assms(2) by (auto simp: candidates_def filter_empty_conv)
  with reconcile_cases [OF m, of a] show ?thesis by simp
qed

subsection \<open>Handlers and the tables they leave\<close>

lemma and_then_unfold:
  "and_then r f = (case fst r of Inl e \<Rightarrow> (Inl e, snd r) | Inr u \<Rightarrow> f (snd r))"
  by (cases r; cases "fst r") (auto simp: and_then_def)

lemma show_msg_keeps [simp]:
  "doc (show_msg m s) = doc s" "busy (show_msg m s) = busy s"
  "lock_held (show_msg m s) = lock_held s"
  by (simp_all add: show_msg_def)

lemma read_sheet_show_msg [simp]: "fst (read_sheet n (show_msg m s)) = fst (read_sheet n s)"
  by (rule read_sheet_doc) simp

lemma log_audit_unfold:
  "log_audit xl log_id now action object_type object_id user details s =
     append_row xl ''audit_log'' (log_entry log_id now action object_type object_id user details) s"
  by (simp add: log_audit_def)

lemma tables_after_record_expense:
  assumes "busy s = []"
  shows "fst (read_sheet ''fund_allocations''
           (snd (record_expense xl expense_id site eng exp_type amount date payment_mode receipt
                   memo user log_id now row_str s))) =
         (case reconcile (fst (read_sheet ''fund_allocations'' s)) eng site amount of
            Inr (Some df) \<Rightarrow> xl df
          | _ \<Rightarrow> fst (read_sheet ''fund_allocations'' s))"
proof (cases "doc s = Corrupt")
  case True
  then have "fst (read_sheet ''fund_allocations'' s) = empty_frame"
    by (rule read_sheet_corrupt)
  moreover have "reconcile empty_frame eng site amount = Inl (KeyError ''engineer_id'')"
    by (simp add: reconcile_def alloc_mask_def get_column_def empty_frame_def)
  ultimately show ?thesis using True assms
    by (simp add: record_expense_def and_then_unfold append_row_result acquire_fst
        read_sheet_corrupt append_row_corrupt)
next
  case False
  then show ?thesis using assms
    by (simp add: record_expense_def and_then_unfold append_row_result acquire_fst split_def
        read_sheet_state read_sheet_ensure read_after_append append_row_busy append_row_corrupt
        read_after_write write_sheet_result write_sheet_busy write_sheet_corrupt
        ensure_workbook_other ensure_corrupt log_audit_unfold
        split: sum.splits option.splits)
qed

lemma record_expense_no_debit:
  assumes "\<And>df. reconcile (fst (read_sheet ''fund_allocations'' s)) eng site amount \<noteq> Inr (Some df)"
  shows "fst (read_sheet ''fund_allocations''
           (snd (record_expense xl expense_id site eng exp_type amount date payment_mode receipt
                   memo user log_id now row_str s))) =
         fst (read_sheet ''fund_allocations'' s)"
  using assms
  by (simp add: record_expense_def and_then_unfold split_def Let_def read_sheet_state
      read_sheet_ensure read_after_append log_audit_unfold split: sum.splits option.splits)

lemma record_expense_raises_nothing:
  assumes "doc s \<noteq> Corrupt"
    and "reconcile (fst (read_sheet ''fund_allocations'' s)) eng site amount = Inr None"
  shows "fst (record_expense xl expense_id site eng exp_type amount date payment_mode receipt
                memo user log_id now row_str s) = Inr ()"
  using assms
  by (simp add: record_expense_def and_then_unfold split_def Let_def read_sheet_state
      read_sheet_ensure read_after_append append_row_result append_row_corrupt ensure_corrupt
      log_audit_unfold)

lemma expenses_after_record_expense:
  assumes "doc s \<noteq> Corrupt" and "fst (acquire s)"
  shows "fst (read_sheet ''expenses''
           (snd (record_expense xl expense_id site eng exp_type amount date payment_mode receipt
                   memo user log_id now row_str s))) =
         xl (concat_frames (fst (read_sheet ''expenses'' s))
               (frame_of_dict (expense_row expense_id site eng exp_type amount date payment_mode
                  receipt memo)))"
  using assms
  by (simp add: record_expense_def and_then_unfold split_def Let_def read_sheet_state
      read_sheet_ensure read_after_append read_after_write append_row_result log_audit_unfold
      split: sum.splits option.splits)

lemma tables_after_allocate_funds:
  "busy s = [] \<Longrightarrow> doc s \<noteq> Corrupt \<Longrightarrow>
   fst (read_sheet ''fund_allocations''
      (snd (allocate_funds xl allocation_id eng site amount today memo user log_id now row_str s))) =
   xl (concat_frames (fst (read_sheet ''fund_allocations'' s))
     (frame_of_dict
        [(''allocation_id'', CStr allocation_id), (''engineer_id'', eng), (''site_id'', site),
         (''amount_allocated'', CNum amount), (''date_allocated'', CStr today),
         (''balance_remaining'', CNum amount), (''notes'', CStr memo)])) \<and>
   busy (snd (allocate_funds xl allocation_id eng site amount today memo user log_id now row_str s)) = [] \<and>
   doc (snd (allocate_funds xl allocation_id eng site amount today memo user log_id now row_str s))
     \<noteq> Corrupt"
  by (simp add: allocate_funds_def and_then_unfold append_row_result acquire_fst
      read_after_append append_row_busy append_row_corrupt log_audit_unfold)

text \<open>
  Claim C1. On an allocation table (the three columns present, no text among the
  balances) the mask of line 206 is true exactly on the rows whose engineer matches, whose
  site matches and whose balance is a number above zero: the rows \<open>candidates\<close> lists.
  When there is such a row, the reconciler debits the first one in table order, \<open>i\<close>,
  whose balance \<open>x\<close> becomes the double nearest to \<open>x - amount\<close>, and leaves every
  other row as it is; no row before \<open>i\<close> is a candidate, and every other candidate,
  whatever its balance and its date, comes later in the table and is not touched. With the
  lock free, the table then stored under ``fund_allocations'' reads back as the library
  returns the debited table.
\<close>

theorem first_fit_selection:
  assumes "allocation_table alloc_df"
  shows "alloc_mask alloc_df eng site =
           Inr (map (candidate alloc_df eng site) [0..<length (rows alloc_df)]) \<and>
         (\<forall>i rest. candidates alloc_df eng site = i # rest \<longrightarrow>
            i < length (rows alloc_df) \<and> candidate alloc_df eng site i \<and>
            (\<forall>j < i. \<not> candidate alloc_df eng site j) \<and>
            (\<exists>x. as_num (at_cell alloc_df i ''balance_remaining'') = Some x \<and> 0 < x \<and>
               reconcile alloc_df eng site amount =
                 Inr (Some (set_at alloc_df i ''balance_remaining'' (CNum (binary64 (x - amount))))) \<and>
               at_cell (set_at alloc_df i ''balance_remaining'' (CNum (binary64 (x - amount)))) i
                  ''balance_remaining'' = CNum (binary64 (x - amount)) \<and>
               (\<forall>j. j \<noteq> i \<longrightarrow>
                  rows (set_at alloc_df i ''balance_remaining'' (CNum (binary64 (x - amount)))) ! j =
                    rows alloc_df ! j) \<and>
               (\<forall>j \<in> set rest. i < j \<and> candidate alloc_df eng site j \<and>
                  rows (set_at alloc_df i ''balance_remaining'' (CNum (binary64 (x - amount)))) ! j =
                    rows alloc_df ! j) \<and>
               (busy s = [] \<and> fst (read_sheet ''fund_allocations'' s) = alloc_df \<longrightarrow>
                  fst (read_sheet ''fund_allocations''
                    (snd (record_expense xl expense_id site eng exp_type amount date payment_mode
                            receipt memo user log_id now row_str s))) =
                  xl (set_at alloc_df i ''balance_remaining'' (CNum (binary64 (x - amount)))))))"
proof (intro conjI allI impI)
  show "alloc_mask alloc_df eng site =
           Inr (map (candidate alloc_df eng site) [0..<length (rows alloc_df)])"
    by (rule alloc_mask_table [OF assms])
next
  fix i rest
  assume c: "candidates alloc_df eng site = i # rest"
  note f = filter_upt_first [OF c [unfolded candidates_def]]
  from f show "i < length (rows alloc_df)" by simp
  from f show "candidate alloc_df eng site i" by simp
  from reconcile_first_candidate [OF assms c, of amount] obtain x where
    x: "as_num (at_cell alloc_df i ''balance_remaining'') = Some x" "0 < x"
    and r: "reconcile alloc_df eng site amount =
       Inr (Some (set_at alloc_df i ''balance_remaining'' (CNum (binary64 (x - amount)))))"
    by blast
  have col: "''balance_remaining'' \<in> set (columns alloc_df)"
    using assms by (simp add: allocation_table_def)
  have st: "busy s = [] \<and> fst (read_sheet ''fund_allocations'' s) = alloc_df \<longrightarrow>
        fst (read_sheet ''fund_allocations''
          (snd (record_expense xl expense_id site eng exp_type amount date payment_mode
                  receipt memo user log_id now row_str s))) =
        xl (set_at alloc_df i ''balance_remaining'' (CNum (binary64 (x - amount))))"
    using r by (simp add: tables_after_record_expense)
  show "\<exists>x. as_num (at_cell alloc_df i ''balance_remaining'') = Some x \<and> 0 < x \<and>
               reconcile alloc_df eng site amount =
                 Inr (Some (set_at alloc_df i ''balance_remaining'' (CNum (binary64 (x - amount))))) \<and>
               at_cell (set_at alloc_df i ''balance_remaining'' (CNum (binary64 (x - amount)))) i
                  ''balance_remaining'' = CNum (binary64 (x - amount)) \<and>
               (\<forall>j. j \<noteq> i \<longrightarrow>
                  rows (set_at alloc_df i ''balance_remaining'' (CNum (binary64 (x - amount)))) ! j =
                    rows alloc_df ! j) \<and>
               (\<forall>j \<in> set rest. i < j \<and> candidate alloc_df eng site j \<and>
                  rows (set_at alloc_df i ''balance_remaining'' (CNum (binary64 (x - amount)))) ! j =
                    rows alloc_df ! j) \<and>
               (busy s = [] \<and> fst (read_sheet ''fund_allocations'' s) = alloc_df \<longrightarrow>
                  fst (read_sheet ''fund_allocations''
                    (snd (record_expense xl expense_id site eng exp_type amount date payment_mode
                            receipt memo user log_id now row_str s))) =
                  xl (set_at alloc_df i ''balance_remaining'' (CNum (binary64 (x - amount)))))"
    using x r st f col
    by (intro exI [of _ x]) (auto simp: at_cell_set_at set_at_other_row)
next
  fix i rest j
  assume c: "candidates alloc_df eng site = i # rest" and j: "j < i"
  from filter_upt_first [OF c [unfolded candidates_def]] j
  show "\<not> candidate alloc_df eng site j" by simp
qed

theorem first_fit_selection_witness:
  "allocation_table
     \<lparr>columns = [''allocation_id'', ''engineer_id'', ''site_id'', ''amount_allocated'',
                 ''date_allocated'', ''balance_remaining'', ''notes''],
      rows = [[CStr ''A0'', CStr ''E2'', CStr ''S1'', CNum 50, CStr ''2024-01-01'', CNum 50, CNaN],
              [CStr ''A1'', CStr ''E1'', CStr ''S1'', CNum 40, CStr ''2024-01-02'', CNum 0, CNaN],
              [CStr ''A2'', CStr ''E1'', CStr ''S1'', CNum 20, CStr ''2024-01-03'', CNum (- 20), CNaN],
              [CStr ''A3'', CStr ''E1'', CStr ''S1'', CNum 100, CStr ''2024-03-01'', CNum 100, CNaN],
              [CStr ''A4'', CStr ''E1'', CStr ''S1'', CNum 900, CStr ''2024-02-01'', CNum 900, CNaN]]\<rparr> \<and>
   alloc_mask
     \<lparr>columns = [''allocation_id'', ''engineer_id'', ''site_id'', ''amount_allocated'',
                 ''date_allocated'', ''balance_remaining'', ''notes''],
      rows = [[CStr ''A0'', CStr ''E2'', CStr ''S1'', CNum 50, CStr ''2024-01-01'', CNum 50, CNaN],
              [CStr ''A1'', CStr ''E1'', CStr ''S1'', CNum 40, CStr ''2024-01-02'', CNum 0, CNaN],
              [CStr ''A2'', CStr ''E1'', CStr ''S1'', CNum 20, CStr ''2024-01-03'', CNum (- 20), CNaN],
              [CStr ''A3'', CStr ''E1'', CStr ''S1'', CNum 100, CStr ''2024-03-01'', CNum 100, CNaN],
              [CStr ''A4'', CStr ''E1'', CStr ''S1'', CNum 900, CStr ''2024-02-01'', CNum 900, CNaN]]\<rparr>
     (CStr ''E1'') (CStr ''S1'') = Inr [False, False, False, True, True] \<and>
   candidates
     \<lparr>columns = [''allocation_id'', ''engineer_id'', ''site_id'', ''amount_allocated'',
                 ''date_allocated'', ''balance_remaining'', ''notes''],
      rows = [[CStr ''A0'', CStr ''E2'', CStr ''S1'', CNum 50, CStr ''2024-01-01'', CNum 50, CNaN],
              [CStr ''A1'', CStr ''E1'', CStr ''S1'', CNum 40, CStr ''2024-01-02'', CNum 0, CNaN],
              [CStr ''A2'', CStr ''E1'', CStr ''S1'', CNum 20, CStr ''2024-01-03'', CNum (- 20), CNaN],
              [CStr ''A3'', CStr ''E1'', CStr ''S1'', CNum 100, CStr ''2024-03-01'', CNum 100, CNaN],
              [CStr ''A4'', CStr ''E1'', CStr ''S1'', CNum 900, CStr ''2024-02-01'', CNum 900, CNaN]]\<rparr>
     (CStr ''E1'') (CStr ''S1'') = [3, 4] \<and>
   reconcile
     \<lparr>columns = [''allocation_id'', ''engineer_id'', ''site_id'', ''amount_allocated'',
                 ''date_allocated'', ''balance_remaining'', ''notes''],
      rows = [[CStr ''A0'', CStr ''E2'', CStr ''S1'', CNum 50, CStr ''2024-01-01'', CNum 50, CNaN],
              [CStr ''A1'', CStr ''E1'', CStr ''S1'', CNum 40, CStr ''2024-01-02'', CNum 0, CNaN],
              [CStr ''A2'', CStr ''E1'', CStr ''S1'', CNum 20, CStr ''2024-01-03'', CNum (- 20), CNaN],
              [CStr ''A3'', CStr ''E1'', CStr ''S1'', CNum 100, CStr ''2024-03-01'', CNum 100, CNaN],
              [CStr ''A4'', CStr ''E1'', CStr ''S1'', CNum 900, CStr ''2024-02-01'', CNum 900, CNaN]]\<rparr>
     (CStr ''E1'') (CStr ''S1'') 30 =
   Inr (Some
     \<lparr>columns = [''allocation_id'', ''engineer_id'', ''site_id'', ''amount_allocated'',
                 ''date_allocated'', ''balance_remaining'', ''notes''],
      rows = [[CStr ''A0'', CStr ''E2'', CStr ''S1'', CNum 50, CStr ''2024-01-01'', CNum 50, CNaN],
              [CStr ''A1'', CStr ''E1'', CStr ''S1'', CNum 40, CStr ''2024-01-02'', CNum 0, CNaN],
              [CStr ''A2'', CStr ''E1'', CStr ''S1'', CNum 20, CStr ''2024-01-03'', CNum (- 20), CNaN],
              [CStr ''A3'', CStr ''E1'', CStr ''S1'', CNum 100, CStr ''2024-03-01'', CNum 70, CNaN],
              [CStr ''A4'', CStr ''E1'', CStr ''S1'', CNum 900, CStr ''2024-02-01'', CNum 900, CNaN]]\<rparr>) \<and>
   fst (read_sheet ''fund_allocations''
     (snd (record_expense (\<lambda>df. df) ''X1'' (CStr ''S1'') (CStr ''E1'') ''Misc'' 30 ''2024-04-01'' ''Cash'' None
          ''n'' (CStr ''u'') ''L1'' ''t1'' ''r1''
     \<lparr>doc = Workbook (new_workbook(''fund_allocations'' \<mapsto>
     \<lparr>columns = [''allocation_id'', ''engineer_id'', ''site_id'', ''amount_allocated'',
                 ''date_allocated'', ''balance_remaining'', ''notes''],
      rows = [[CStr ''A0'', CStr ''E2'', CStr ''S1'', CNum 50, CStr ''2024-01-01'', CNum 50, CNaN],
              [CStr ''A1'', CStr ''E1'', CStr ''S1'', CNum 40, CStr ''2024-01-02'', CNum 0, CNaN],
              [CStr ''A2'', CStr ''E1'', CStr ''S1'', CNum 20, CStr ''2024-01-03'', CNum (- 20), CNaN],
              [CStr ''A3'', CStr ''E1'', CStr ''S1'', CNum 100, CStr ''2024-03-01'', CNum 100, CNaN],
              [CStr ''A4'', CStr ''E1'', CStr ''S1'', CNum 900, CStr ''2024-02-01'', CNum 900, CNaN]]\<rparr>)),
     busy = [], lock_held = False, ui = []\<rparr>))) =
     \<lparr>columns = [''allocation_id'', ''engineer_id'', ''site_id'', ''amount_allocated'',
                 ''date_allocated'', ''balance_remaining'', ''notes''],
      rows = [[CStr ''A0'', CStr ''E2'', CStr ''S1'', CNum 50, CStr ''2024-01-01'', CNum 50, CNaN],
              [CStr ''A1'', CStr ''E1'', CStr ''S1'', CNum 40, CStr ''2024-01-02'', CNum 0, CNaN],
              [CStr ''A2'', CStr ''E1'', CStr ''S1'', CNum 20, CStr ''2024-01-03'', CNum (- 20), CNaN],
              [CStr ''A3'', CStr ''E1'', CStr ''S1'', CNum 100, CStr ''2024-03-01'', CNum 70, CNaN],
              [CStr ''A4'', CStr ''E1'', CStr ''S1'', CNum 900, CStr ''2024-02-01'', CNum 900, CNaN]]\<rparr>"
  using first_fit_selection [where alloc_df =
     "\<lparr>columns = [''allocation_id'', ''engineer_id'', ''site_id'', ''amount_allocated'',
                 ''date_allocated'', ''balance_remaining'', ''notes''],
      rows = [[CStr ''A0'', CStr ''E2'', CStr ''S1'', CNum 50, CStr ''2024-01-01'', CNum 50, CNaN],
              [CStr ''A1'', CStr ''E1'', CStr ''S1'', CNum 40, CStr ''2024-01-02'', CNum 0, CNaN],
              [CStr ''A2'', CStr ''E1'', CStr ''S1'', CNum 20, CStr ''2024-01-03'', CNum (- 20), CNaN],
              [CStr ''A3'', CStr ''E1'', CStr ''S1'', CNum 100, CStr ''2024-03-01'', CNum 100, CNaN],
              [CStr ''A4'', CStr ''E1'', CStr ''S1'', CNum 900, CStr ''2024-02-01'', CNum 900, CNaN]]\<rparr>"
     and eng = "CStr ''E1''" and site = "CStr ''S1''" and amount = 30 and xl = "\<lambda>df. df"
     and s = "\<lparr>doc = Workbook (new_workbook(''fund_allocations'' \<mapsto>
     \<lparr>columns = [''allocation_id'', ''engineer_id'', ''site_id'', ''amount_allocated'',
                 ''date_allocated'', ''balance_remaining'', ''notes''],
      rows = [[CStr ''A0'', CStr ''E2'', CStr ''S1'', CNum 50, CStr ''2024-01-01'', CNum 50, CNaN],
              [CStr ''A1'', CStr ''E1'', CStr ''S1'', CNum 40, CStr ''2024-01-02'', CNum 0, CNaN],
              [CStr ''A2'', CStr ''E1'', CStr ''S1'', CNum 20, CStr ''2024-01-03'', CNum (- 20), CNaN],
              [CStr ''A3'', CStr ''E1'', CStr ''S1'', CNum 100, CStr ''2024-03-01'', CNum 100, CNaN],
              [CStr ''A4'', CStr ''E1'', CStr ''S1'', CNum 900, CStr ''2024-02-01'', CNum 900, CNaN]]\<rparr>)),
     busy = [], lock_held = False, ui = []\<rparr>"
     and expense_id = "''X1''" and exp_type = "''Misc''" and date = "''2024-04-01''"
     and payment_mode = "''Cash''" and receipt = None and memo = "''n''" and user = "CStr ''u''"
     and log_id = "''L1''" and now = "''t1''" and row_str = "''r1''"]
  by (simp add: allocation_table_def candidates_def candidate_def at_cell_def cell_of_def
      set_at_def set_row_def binary64_eval read_sheet_def ensure_workbook_def read_excel_def
      eval_nat_numeral)

lemma ui_show_msg: "ui (show_msg m s) = ui s @ [m]"
  by (simp add: show_msg_def)

lemma write_sheet_ui:
  "ui (snd (write_sheet xl name df s)) = ui s @ (if fst (acquire s) then [] else [lock_message])"
  by (cases "doc s")
     (simp_all add: write_sheet_cases show_msg_def ensure_workbook_def)

lemma append_row_ui:
  "ui (snd (append_row xl name row_dict s)) = ui s @ (if fst (acquire s) then [] else [lock_message])"
  by (simp add: append_row_unfold write_sheet_ui acquire_ensure ensure_workbook_other)

lemma record_expense_raises:
  assumes "doc s \<noteq> Corrupt"
    and "reconcile (fst (read_sheet ''fund_allocations'' s)) eng site amount = Inl e"
  shows "fst (record_expense xl expense_id site eng exp_type amount date payment_mode receipt
                memo user log_id now row_str s) = Inl e \<and>
         (\<forall>n. n \<noteq> ''expenses'' \<longrightarrow>
            fst (read_sheet n
              (snd (record_expense xl expense_id site eng exp_type amount date payment_mode receipt
                      memo user log_id now row_str s))) = fst (read_sheet n s))"
  using assms
  by (simp add: record_expense_def and_then_unfold split_def Let_def read_sheet_state
      read_sheet_ensure read_after_append append_row_result)

lemma expenses_without_lock:
  assumes "\<not> fst (acquire s)"
  shows "fst (read_sheet ''expenses''
           (snd (record_expense xl expense_id site eng exp_type amount date payment_mode receipt
                   memo user log_id now row_str s))) = fst (read_sheet ''expenses'' s)"
  using assms
  by (simp add: record_expense_def and_then_unfold split_def Let_def read_sheet_state
      read_sheet_ensure read_after_append read_after_write append_row_result log_audit_unfold
      split: sum.splits option.splits)

lemma allocate_funds_on_timeout:
  assumes "busy s = [True]" and "doc s \<noteq> Corrupt"
  shows "fst (allocate_funds xl allocation_id eng site amount today memo user log_id now row_str s)
           = Inr () \<and>
         ui (snd (allocate_funds xl allocation_id eng site amount today memo user log_id now
                    row_str s)) = ui s @ [lock_message, Success ''Funds allocated''] \<and>
         fst (read_sheet ''fund_allocations''
           (snd (allocate_funds xl allocation_id eng site amount today memo user log_id now
                   row_str s))) = fst (read_sheet ''fund_allocations'' s) \<and>
         fst (read_sheet ''audit_log''
           (snd (allocate_funds xl allocation_id eng site amount today memo user log_id now
                   row_str s))) =
           xl (concat_frames (fst (read_sheet ''audit_log'' s))
                 (frame_of_dict (log_entry log_id now ''allocate_funds'' ''fund_allocations''
                    (CStr allocation_id) user row_str)))"
  using assms
  by (simp add: allocate_funds_def and_then_unfold append_row_result acquire_fst
      read_after_append append_row_busy append_row_corrupt append_row_ui log_audit_unfold
      ui_show_msg)

lemma read_sheet_busy_update [simp]: "fst (read_sheet n (s\<lparr>busy := b\<rparr>)) = fst (read_sheet n s)"
  by (rule read_sheet_doc) simp

text \<open>
  Claim C3, as stated, fails in two ways. In a workbook without its ``fund_allocations''
  sheet the table reads as the empty frame: no allocation matches, the expense row is
  stored by line 203, and line 206 raises \<^verbatim>\<open>KeyError\<close> before the audit entry is
  written. And when the lock for the write of line 203 times out, nothing is raised and
  the expense row is not created.
\<close>

theorem record_expense_without_candidate_fails:
  "candidates (fst (read_sheet ''fund_allocations''
       \<lparr>doc = Workbook (new_workbook(''fund_allocations'' := None)), busy = [], lock_held = False,
        ui = []\<rparr>)) (CStr ''E1'') (CStr ''S1'') = [] \<and>
   fst (record_expense (\<lambda>df. df) ''X1'' (CStr ''S1'') (CStr ''E1'') ''Misc'' 25 ''2024-01-05'' ''Cash'' None
          [] (CStr ''u'') ''L1'' ''t1'' ''r1''
       \<lparr>doc = Workbook (new_workbook(''fund_allocations'' := None)), busy = [], lock_held = False,
        ui = []\<rparr>) = Inl (KeyError ''engineer_id'') \<and>
   rows (fst (read_sheet ''expenses'' (snd (record_expense (\<lambda>df. df) ''X1'' (CStr ''S1'') (CStr ''E1'') ''Misc'' 25 ''2024-01-05'' ''Cash'' None
          [] (CStr ''u'') ''L1'' ''t1'' ''r1''
       \<lparr>doc = Workbook (new_workbook(''fund_allocations'' := None)), busy = [], lock_held = False,
        ui = []\<rparr>)))) =
     [[CStr ''X1'', CStr ''S1'', CStr ''E1'', CStr ''Misc'', CNum 25, CStr ''2024-01-05'',
       CStr ''Cash'', CStr [], CStr [], CBool False, CStr []]] \<and>
   rows (fst (read_sheet ''audit_log'' (snd (record_expense (\<lambda>df. df) ''X1'' (CStr ''S1'') (CStr ''E1'') ''Misc'' 25 ''2024-01-05'' ''Cash'' None
          [] (CStr ''u'') ''L1'' ''t1'' ''r1''
       \<lparr>doc = Workbook (new_workbook(''fund_allocations'' := None)), busy = [], lock_held = False,
        ui = []\<rparr>)))) = [] \<and>
   candidates (fst (read_sheet ''fund_allocations''
       \<lparr>doc = Workbook new_workbook, busy = [True], lock_held = False, ui = []\<rparr>)) (CStr ''E1'') (CStr ''S1'') = [] \<and>
   fst (record_expense (\<lambda>df. df) ''X1'' (CStr ''S1'') (CStr ''E1'') ''Misc'' 25 ''2024-01-05'' ''Cash'' None
          [] (CStr ''u'') ''L1'' ''t1'' ''r1''
       \<lparr>doc = Workbook new_workbook, busy = [True], lock_held = False, ui = []\<rparr>) = Inr () \<and>
   rows (fst (read_sheet ''expenses'' (snd (record_expense (\<lambda>df. df) ''X1'' (CStr ''S1'') (CStr ''E1'') ''Misc'' 25 ''2024-01-05'' ''Cash'' None
          [] (CStr ''u'') ''L1'' ''t1'' ''r1''
       \<lparr>doc = Workbook new_workbook, busy = [True], lock_held = False, ui = []\<rparr>)))) = []"
proof -
  let ?sc = "\<lparr>doc = Workbook (new_workbook(''fund_allocations'' := None)), busy = [], lock_held = False,
        ui = []\<rparr>"
  let ?sb = "\<lparr>doc = Workbook new_workbook, busy = [True], lock_held = False, ui = []\<rparr>"
  have dc: "doc ?sc \<noteq> Corrupt" and ac: "fst (acquire ?sc)" by (simp_all add: acquire_def)
  have tc: "fst (read_sheet ''fund_allocations'' ?sc) = empty_frame"
    by (simp add: read_sheet_def ensure_workbook_def read_excel_def)
  have cc: "candidates empty_frame (CStr ''E1'') (CStr ''S1'') = []"
    by (simp add: candidates_def empty_frame_def)
  have rc: "reconcile empty_frame (CStr ''E1'') (CStr ''S1'') 25 = Inl (KeyError ''engineer_id'')"
    by (simp add: reconcile_def alloc_mask_def get_column_def empty_frame_def)
  have ec: "fst (read_sheet ''expenses'' ?sc) =
      header_only [''expense_id'', ''site_id'', ''engineer_id'', ''expense_type'', ''amount'',
        ''date'', ''payment_mode'', ''receipt_path'', ''approved_by'', ''approved'', ''notes'']"
    and lc: "fst (read_sheet ''audit_log'' ?sc) =
      header_only [''log_id'', ''action'', ''object_type'', ''object_id'', ''user'',
        ''timestamp'', ''details'']"
    by (simp_all add: read_sheet_def ensure_workbook_def read_excel_def new_workbook_def sheets_def)
  note raised = record_expense_raises [OF dc, of "CStr ''E1''" "CStr ''S1''" 25
      "KeyError ''engineer_id''" "\<lambda>df. df" "''X1''" "''Misc''" "''2024-01-05''" "''Cash''" None "[]"
      "CStr ''u''" "''L1''" "''t1''" "''r1''", unfolded tc, OF rc]
  have c1: "fst (record_expense (\<lambda>df. df) ''X1'' (CStr ''S1'') (CStr ''E1'') ''Misc'' 25 ''2024-01-05'' ''Cash'' None
          [] (CStr ''u'') ''L1'' ''t1'' ''r1'' ?sc) = Inl (KeyError ''engineer_id'')"
    using raised by simp
  have c2: "rows (fst (read_sheet ''audit_log'' (snd (record_expense (\<lambda>df. df) ''X1'' (CStr ''S1'') (CStr ''E1'') ''Misc'' 25 ''2024-01-05'' ''Cash'' None
          [] (CStr ''u'') ''L1'' ''t1'' ''r1'' ?sc)))) = []"
    using raised by (simp add: lc header_only_def)
  have c3: "rows (fst (read_sheet ''expenses'' (snd (record_expense (\<lambda>df. df) ''X1'' (CStr ''S1'') (CStr ''E1'') ''Misc'' 25 ''2024-01-05'' ''Cash'' None
          [] (CStr ''u'') ''L1'' ''t1'' ''r1'' ?sc)))) =
     [[CStr ''X1'', CStr ''S1'', CStr ''E1'', CStr ''Misc'', CNum 25, CStr ''2024-01-05'',
       CStr ''Cash'', CStr [], CStr [], CBool False, CStr []]]"
    by (simp add: expenses_after_record_expense [OF dc ac] ec header_only_def concat_frames_def
        reindex_def frame_of_dict_def expense_row_def cell_of_def)
  have db: "doc ?sb \<noteq> Corrupt" and ab: "\<not> fst (acquire ?sb)" by (simp_all add: acquire_def)
  have tb: "fst (read_sheet ''fund_allocations'' ?sb) =
      header_only [''allocation_id'', ''engineer_id'', ''site_id'', ''amount_allocated'',
        ''date_allocated'', ''balance_remaining'', ''notes'']"
    and eb: "fst (read_sheet ''expenses'' ?sb) =
      header_only [''expense_id'', ''site_id'', ''engineer_id'', ''expense_type'', ''amount'',
        ''date'', ''payment_mode'', ''receipt_path'', ''approved_by'', ''approved'', ''notes'']"
    by (simp_all add: read_sheet_def ensure_workbook_def read_excel_def new_workbook_def sheets_def)
  have cb: "candidates (fst (read_sheet ''fund_allocations'' ?sb)) (CStr ''E1'') (CStr ''S1'') = []"
    by (simp add: tb candidates_def header_only_def)
  have "allocation_table (fst (read_sheet ''fund_allocations'' ?sb))"
    by (simp add: tb allocation_table_def header_only_def)
  then have "reconcile (fst (read_sheet ''fund_allocations'' ?sb)) (CStr ''E1'') (CStr ''S1'') 25 =
      Inr None"
    using cb by (rule reconcile_none)
  then have b1: "fst (record_expense (\<lambda>df. df) ''X1'' (CStr ''S1'') (CStr ''E1'') ''Misc'' 25 ''2024-01-05'' ''Cash'' None
          [] (CStr ''u'') ''L1'' ''t1'' ''r1'' ?sb) = Inr ()"
    by (rule record_expense_raises_nothing [OF db])
  have b2: "rows (fst (read_sheet ''expenses'' (snd (record_expense (\<lambda>df. df) ''X1'' (CStr ''S1'') (CStr ''E1'') ''Misc'' 25 ''2024-01-05'' ''Cash'' None
          [] (CStr ''u'') ''L1'' ''t1'' ''r1'' ?sb)))) = []"
    by (simp add: expenses_without_lock [OF ab] eb header_only_def)
  show ?thesis
    using cc c1 c2 c3 cb b1 b2 by (simp add: tc)
qed

text \<open>
  Claim C3, amended. When no allocation row matches the engineer and the site with a
  balance above zero, recording the expense leaves the allocation table as it is, in
  every state. When moreover the file can be opened and the lock is acquired for the
  write of line 203, the expense row is added to the ``expenses'' table, which then reads
  back as the library returns it. When the file can be opened and the allocation table
  has the three columns line 206 reads and no text among its balances, nothing is raised.
\<close>

theorem no_candidate_no_debit:
  assumes "candidates (fst (read_sheet ''fund_allocations'' s)) eng site = []"
  shows "fst (read_sheet ''fund_allocations''
           (snd (record_expense xl expense_id site eng exp_type amount date payment_mode receipt
                   memo user log_id now row_str s))) = fst (read_sheet ''fund_allocations'' s) \<and>
         (doc s \<noteq> Corrupt \<and> fst (acquire s) \<longrightarrow>
            fst (read_sheet ''expenses''
              (snd (record_expense xl expense_id site eng exp_type amount date payment_mode receipt
                      memo user log_id now row_str s))) =
            xl (concat_frames (fst (read_sheet ''expenses'' s))
                  (frame_of_dict (expense_row expense_id site eng exp_type amount date payment_mode
                     receipt memo)))) \<and>
         (doc s \<noteq> Corrupt \<and> allocation_table (fst (read_sheet ''fund_allocations'' s)) \<longrightarrow>
            fst (record_expense xl expense_id site eng exp_type amount date payment_mode receipt
                   memo user log_id now row_str s) = Inr ())"
proof (intro conjI impI)
  show "fst (read_sheet ''fund_allocations''
           (snd (record_expense xl expense_id site eng exp_type amount date payment_mode receipt
                   memo user log_id now row_str s))) = fst (read_sheet ''fund_allocations'' s)"
    by (rule record_expense_no_debit) (rule reconcile_no_candidate [OF assms])
next
  assume "doc s \<noteq> Corrupt \<and> fst (acquire s)"
  then show "fst (read_sheet ''expenses''
              (snd (record_expense xl expense_id site eng exp_type amount date payment_mode receipt
                      memo user log_id now row_str s))) =
            xl (concat_frames (fst (read_sheet ''expenses'' s))
                  (frame_of_dict (expense_row expense_id site eng exp_type amount date payment_mode
                     receipt memo)))"
    by (simp add: expenses_after_record_expense)
next
  assume a: "doc s \<noteq> Corrupt \<and> allocation_table (fst (read_sheet ''fund_allocations'' s))"
  then have "reconcile (fst (read_sheet ''fund_allocations'' s)) eng site amount = Inr None"
    using assms by (simp add: reconcile_none)
  with a show "fst (record_expense xl expense_id site eng exp_type amount date payment_mode receipt
                   memo user log_id now row_str s) = Inr ()"
    by (simp add: record_expense_raises_nothing)
qed

theorem no_candidate_no_debit_witness:
  "candidates (fst (read_sheet ''fund_allocations''
     \<lparr>doc = Workbook (new_workbook(''fund_allocations'' \<mapsto>
     \<lparr>columns = [''allocation_id'', ''engineer_id'', ''site_id'', ''amount_allocated'',
                 ''date_allocated'', ''balance_remaining'', ''notes''],
      rows = [[CStr ''A0'', CStr ''E2'', CStr ''S1'', CNum 50, CStr ''2024-01-01'', CNum 50, CNaN],
              [CStr ''A1'', CStr ''E1'', CStr ''S1'', CNum 40, CStr ''2024-01-02'', CNum 0, CNaN],
              [CStr ''A2'', CStr ''E1'', CStr ''S1'', CNum 20, CStr ''2024-01-03'', CNum (- 20), CNaN]]\<rparr>)),
     busy = [], lock_held = False, ui = []\<rparr>)) (CStr ''E1'') (CStr ''S1'') = [] \<and>
   doc \<lparr>doc = Workbook (new_workbook(''fund_allocations'' \<mapsto>
     \<lparr>columns = [''allocation_id'', ''engineer_id'', ''site_id'', ''amount_allocated'',
                 ''date_allocated'', ''balance_remaining'', ''notes''],
      rows = [[CStr ''A0'', CStr ''E2'', CStr ''S1'', CNum 50, CStr ''2024-01-01'', CNum 50, CNaN],
              [CStr ''A1'', CStr ''E1'', CStr ''S1'', CNum 40, CStr ''2024-01-02'', CNum 0, CNaN],
              [CStr ''A2'', CStr ''E1'', CStr ''S1'', CNum 20, CStr ''2024-01-03'', CNum (- 20), CNaN]]\<rparr>)),
     busy = [], lock_held = False, ui = []\<rparr> \<noteq> Corrupt \<and>
   fst (acquire \<lparr>doc = Workbook (new_workbook(''fund_allocations'' \<mapsto>
     \<lparr>columns = [''allocation_id'', ''engineer_id'', ''site_id'', ''amount_allocated'',
                 ''date_allocated'', ''balance_remaining'', ''notes''],
      rows = [[CStr ''A0'', CStr ''E2'', CStr ''S1'', CNum 50, CStr ''2024-01-01'', CNum 50, CNaN],
              [CStr ''A1'', CStr ''E1'', CStr ''S1'', CNum 40, CStr ''2024-01-02'', CNum 0, CNaN],
              [CStr ''A2'', CStr ''E1'', CStr ''S1'', CNum 20, CStr ''2024-01-03'', CNum (- 20), CNaN]]\<rparr>)),
     busy = [], lock_held = False, ui = []\<rparr>) \<and>
   allocation_table (fst (read_sheet ''fund_allocations''
     \<lparr>doc = Workbook (new_workbook(''fund_allocations'' \<mapsto>
     \<lparr>columns = [''allocation_id'', ''engineer_id'', ''site_id'', ''amount_allocated'',
                 ''date_allocated'', ''balance_remaining'', ''notes''],
      rows = [[CStr ''A0'', CStr ''E2'', CStr ''S1'', CNum 50, CStr ''2024-01-01'', CNum 50, CNaN],
              [CStr ''A1'', CStr ''E1'', CStr ''S1'', CNum 40, CStr ''2024-01-02'', CNum 0, CNaN],
              [CStr ''A2'', CStr ''E1'', CStr ''S1'', CNum 20, CStr ''2024-01-03'', CNum (- 20), CNaN]]\<rparr>)),
     busy = [], lock_held = False, ui = []\<rparr>)) \<and>
   fst (record_expense (\<lambda>df. df) ''X1'' (CStr ''S1'') (CStr ''E1'') ''Misc'' 25 ''2024-01-05'' ''Cash'' None
          [] (CStr ''u'') ''L1'' ''t1'' ''r1''
     \<lparr>doc = Workbook (new_workbook(''fund_allocations'' \<mapsto>
     \<lparr>columns = [''allocation_id'', ''engineer_id'', ''site_id'', ''amount_allocated'',
                 ''date_allocated'', ''balance_remaining'', ''notes''],
      rows = [[CStr ''A0'', CStr ''E2'', CStr ''S1'', CNum 50, CStr ''2024-01-01'', CNum 50, CNaN],
              [CStr ''A1'', CStr ''E1'', CStr ''S1'', CNum 40, CStr ''2024-01-02'', CNum 0, CNaN],
              [CStr ''A2'', CStr ''E1'', CStr ''S1'', CNum 20, CStr ''2024-01-03'', CNum (- 20), CNaN]]\<rparr>)),
     busy = [], lock_held = False, ui = []\<rparr>) = Inr () \<and>
   fst (read_sheet ''fund_allocations'' (snd (record_expense (\<lambda>df. df) ''X1'' (CStr ''S1'') (CStr ''E1'') ''Misc'' 25 ''2024-01-05'' ''Cash'' None
          [] (CStr ''u'') ''L1'' ''t1'' ''r1''
     \<lparr>doc = Workbook (new_workbook(''fund_allocations'' \<mapsto>
     \<lparr>columns = [''allocation_id'', ''engineer_id'', ''site_id'', ''amount_allocated'',
                 ''date_allocated'', ''balance_remaining'', ''notes''],
      rows = [[CStr ''A0'', CStr ''E2'', CStr ''S1'', CNum 50, CStr ''2024-01-01'', CNum 50, CNaN],
              [CStr ''A1'', CStr ''E1'', CStr ''S1'', CNum 40, CStr ''2024-01-02'', CNum 0, CNaN],
              [CStr ''A2'', CStr ''E1'', CStr ''S1'', CNum 20, CStr ''2024-01-03'', CNum (- 20), CNaN]]\<rparr>)),
     busy = [], lock_held = False, ui = []\<rparr>))) =
     \<lparr>columns = [''allocation_id'', ''engineer_id'', ''site_id'', ''amount_allocated'',
                 ''date_allocated'', ''balance_remaining'', ''notes''],
      rows = [[CStr ''A0'', CStr ''E2'', CStr ''S1'', CNum 50, CStr ''2024-01-01'', CNum 50, CNaN],
              [CStr ''A1'', CStr ''E1'', CStr ''S1'', CNum 40, CStr ''2024-01-02'', CNum 0, CNaN],
              [CStr ''A2'', CStr ''E1'', CStr ''S1'', CNum 20, CStr ''2024-01-03'', CNum (- 20), CNaN]]\<rparr> \<and>
   rows (fst (read_sheet ''expenses'' (snd (record_expense (\<lambda>df. df) ''X1'' (CStr ''S1'') (CStr ''E1'') ''Misc'' 25 ''2024-01-05'' ''Cash'' None
          [] (CStr ''u'') ''L1'' ''t1'' ''r1''
     \<lparr>doc = Workbook (new_workbook(''fund_allocations'' \<mapsto>
     \<lparr>columns = [''allocation_id'', ''engineer_id'', ''site_id'', ''amount_allocated'',
                 ''date_allocated'', ''balance_remaining'', ''notes''],
      rows = [[CStr ''A0'', CStr ''E2'', CStr ''S1'', CNum 50, CStr ''2024-01-01'', CNum 50, CNaN],
              [CStr ''A1'', CStr ''E1'', CStr ''S1'', CNum 40, CStr ''2024-01-02'', CNum 0, CNaN],
              [CStr ''A2'', CStr ''E1'', CStr ''S1'', CNum 20, CStr ''2024-01-03'', CNum (- 20), CNaN]]\<rparr>)),
     busy = [], lock_held = False, ui = []\<rparr>)))) =
     [[CStr ''X1'', CStr ''S1'', CStr ''E1'', CStr ''Misc'', CNum 25, CStr ''2024-01-05'',
       CStr ''Cash'', CStr [], CStr [], CBool False, CStr []]]"
  using no_candidate_no_debit [where s = "\<lparr>doc = Workbook (new_workbook(''fund_allocations'' \<mapsto>
     \<lparr>columns = [''allocation_id'', ''engineer_id'', ''site_id'', ''amount_allocated'',
                 ''date_allocated'', ''balance_remaining'', ''notes''],
      rows = [[CStr ''A0'', CStr ''E2'', CStr ''S1'', CNum 50, CStr ''2024-01-01'', CNum 50, CNaN],
              [CStr ''A1'', CStr ''E1'', CStr ''S1'', CNum 40, CStr ''2024-01-02'', CNum 0, CNaN],
              [CStr ''A2'', CStr ''E1'', CStr ''S1'', CNum 20, CStr ''2024-01-03'', CNum (- 20), CNaN]]\<rparr>)),
     busy = [], lock_held = False, ui = []\<rparr>"
      and eng = "CStr ''E1''" and site = "CStr ''S1''" and xl = "\<lambda>df. df" and expense_id = "''X1''"
      and exp_type = "''Misc''" and amount = 25 and date = "''2024-01-05''"
      and payment_mode = "''Cash''" and receipt = None and memo = "[]" and user = "CStr ''u''"
      and log_id = "''L1''" and now = "''t1''" and row_str = "''r1''"]
  by (simp add: candidates_def candidate_def allocation_table_def at_cell_def acquire_def
      read_sheet_def ensure_workbook_def read_excel_def new_workbook_def sheets_def
      header_only_def concat_frames_def reindex_def frame_of_dict_def expense_row_def cell_of_def
      eval_nat_numeral)

text \<open>
  Claim C5. A write whose lock attempt times out writes nothing: every table reads as it
  did before, and the retry message is shown to the user. A write that gets the lock has
  released it when it returns, also when the spreadsheet library raises. But the
  time-out does not reach the caller: \<open>write_sheet\<close> returns as it does after a write
  that succeeded. On the Allocate Funds page, with a workbook that can be opened, the lock
  busy for the write of the allocation and free again for the audit entry, the handler
  returns normally, the allocation table is as it was, the audit table has received the
  entry of the allocation, and the messages shown are the retry message followed by
  ``Funds allocated''.
\<close>

theorem write_sheet_timeout_not_signalled:
  "fst (write_sheet xl name df (s\<lparr>busy := True # bs\<rparr>)) = Inr () \<and>
   fst (write_sheet xl name df (s\<lparr>doc := Workbook wb, busy := []\<rparr>)) = Inr () \<and>
   (\<forall>n. fst (read_sheet n (snd (write_sheet xl name df (s\<lparr>busy := True # bs\<rparr>)))) =
          fst (read_sheet n s)) \<and>
   ui (snd (write_sheet xl name df (s\<lparr>busy := True # bs\<rparr>))) = ui s @ [lock_message] \<and>
   \<not> lock_held (snd (write_sheet xl name df (s\<lparr>busy := []\<rparr>))) \<and>
   \<not> lock_held (snd (write_sheet xl name df (s\<lparr>busy := False # bs\<rparr>))) \<and>
   fst (allocate_funds xl allocation_id eng site amount today memo user log_id now row_str
          (s\<lparr>doc := Workbook wb, busy := [True]\<rparr>)) = Inr () \<and>
   ui (snd (allocate_funds xl allocation_id eng site amount today memo user log_id now row_str
          (s\<lparr>doc := Workbook wb, busy := [True]\<rparr>))) =
     ui s @ [lock_message, Success ''Funds allocated''] \<and>
   fst (read_sheet ''fund_allocations''
     (snd (allocate_funds xl allocation_id eng site amount today memo user log_id now row_str
          (s\<lparr>doc := Workbook wb, busy := [True]\<rparr>)))) =
     fst (read_sheet ''fund_allocations'' (s\<lparr>doc := Workbook wb\<rparr>)) \<and>
   fst (read_sheet ''audit_log''
     (snd (allocate_funds xl allocation_id eng site amount today memo user log_id now row_str
          (s\<lparr>doc := Workbook wb, busy := [True]\<rparr>)))) =
     xl (concat_frames (fst (read_sheet ''audit_log'' (s\<lparr>doc := Workbook wb\<rparr>)))
           (frame_of_dict (log_entry log_id now ''allocate_funds'' ''fund_allocations''
              (CStr allocation_id) user row_str)))"
proof -
  have w: "fst (write_sheet xl name df (s\<lparr>busy := True # bs\<rparr>)) = Inr ()"
    "fst (write_sheet xl name df (s\<lparr>doc := Workbook wb, busy := []\<rparr>)) = Inr ()"
    by (simp_all add: write_sheet_result acquire_fst)
  have r: "\<forall>n. fst (read_sheet n (snd (write_sheet xl name df (s\<lparr>busy := True # bs\<rparr>)))) =
          fst (read_sheet n s)"
    by (simp add: read_after_write acquire_fst)
  have u: "ui (snd (write_sheet xl name df (s\<lparr>busy := True # bs\<rparr>))) = ui s @ [lock_message]"
    by (simp add: write_sheet_ui acquire_fst)
  have l: "\<not> lock_held (snd (write_sheet xl name df (s\<lparr>busy := []\<rparr>)))"
    "\<not> lock_held (snd (write_sheet xl name df (s\<lparr>busy := False # bs\<rparr>)))"
    by (simp_all add: write_sheet_cases acquire_fst split: document.splits)
  have a: "fst (allocate_funds xl allocation_id eng site amount today memo user log_id now row_str
          (s\<lparr>doc := Workbook wb, busy := [True]\<rparr>)) = Inr ()"
   "ui (snd (allocate_funds xl allocation_id eng site amount today memo user log_id now row_str
          (s\<lparr>doc := Workbook wb, busy := [True]\<rparr>))) =
     ui s @ [lock_message, Success ''Funds allocated'']"
   "fst (read_sheet ''fund_allocations''
     (snd (allocate_funds xl allocation_id eng site amount today memo user log_id now row_str
          (s\<lparr>doc := Workbook wb, busy := [True]\<rparr>)))) =
     fst (read_sheet ''fund_allocations'' (s\<lparr>doc := Workbook wb\<rparr>))"
   "fst (read_sheet ''audit_log''
     (snd (allocate_funds xl allocation_id eng site amount today memo user log_id now row_str
          (s\<lparr>doc := Workbook wb, busy := [True]\<rparr>)))) =
     xl (concat_frames (fst (read_sheet ''audit_log'' (s\<lparr>doc := Workbook wb\<rparr>)))
           (frame_of_dict (log_entry log_id now ''allocate_funds'' ''fund_allocations''
              (CStr allocation_id) user row_str)))"
    using allocate_funds_on_timeout [of "s\<lparr>doc := Workbook wb, busy := [True]\<rparr>" xl
      allocation_id eng site amount today memo user log_id now row_str]
    by simp_all
  from w r u l a show ?thesis by blast
qed

subsection \<open>Balances along a run\<close>


lemma reconcile_step:
  assumes r: "reconcile df eng site a = Inr (Some df')"
  shows "\<exists>k rest x. allocation_table df \<and> candidates df eng site = k # rest \<and>
           k < length (rows df) \<and> as_num (at_cell df k ''balance_remaining'') = Some x \<and>
           df' = set_at df k ''balance_remaining'' (CNum (binary64 (x - a)))"
proof -
  from r obtain m where m: "alloc_mask df eng site = Inr m"
    by (auto simp: reconcile_def split: sum.splits)
  note t = alloc_mask_Inr [OF m]
  from reconcile_no_candidate [of df eng site a df'] r
  obtain k rest where c: "candidates df eng site = k # rest"
    by (cases "candidates df eng site") auto
  from reconcile_first_candidate [OF t c, of a] r obtain x where
    "as_num (at_cell df k ''balance_remaining'') = Some x"
    "df' = set_at df k ''balance_remaining'' (CNum (binary64 (x - a)))"
    by auto
  moreover from filter_upt_first [OF c [unfolded candidates_def]] have "k < length (rows df)"
    by simp
  ultimately show ?thesis using t c by blast
qed






end
